theory Spec2Isabelle
  imports Complex_Main
begin

text \<open>
  A model of the request pipeline and of the search client of the hadith bot: the rate
  limiter (\<open>middlewares/rateLimit.js\<close>), the authentication gate
  (\<open>middlewares/auth.js\<close>), the search client (\<open>api/hadith.js\<close>) with the cache and the
  tables it works on (\<open>database/index.js\<close>), and the constants of \<open>config/index.js\<close>.
  Functions keep the names they have in the source. A function that mutates the storage,
  the cache or the log takes the state and returns the new one; a \<open>try\<close> block is a
  function whose result is the error thrown or the value returned, and the \<open>catch\<close> is
  the case distinction on it.
\<close>

section \<open>JavaScript strings and values\<close>

text \<open>
  A JavaScript string is a sequence of UTF-16 code units; \<open>length\<close>, \<open>trim\<close>, \<open>substring\<close>
  and a regular expression without the \<open>u\<close> flag all work on code units. The Arabic
  literals of the source are written as their code units.
\<close>

type_synonym jsstring = "nat list"

abbreviation S :: "string \<Rightarrow> jsstring" where
  "S s \<equiv> map of_char s"

text \<open>The characters \<open>\s\<close> matches and \<open>trim\<close> removes (ECMAScript WhiteSpace and LineTerminator).\<close>

definition isWhiteSpace :: "nat \<Rightarrow> bool" where
  "isWhiteSpace c \<longleftrightarrow>
     c = 9 \<or> c = 10 \<or> c = 11 \<or> c = 12 \<or> c = 13 \<or> c = 32 \<or> c = 160 \<or> c = 5760 \<or>
     (8192 \<le> c \<and> c \<le> 8202) \<or> c = 8232 \<or> c = 8233 \<or> c = 8239 \<or> c = 8287 \<or>
     c = 12288 \<or> c = 65279"

definition trim :: "jsstring \<Rightarrow> jsstring" where
  "trim s = rev (dropWhile isWhiteSpace (rev (dropWhile isWhiteSpace s)))"

text \<open>\<open>s.replace(/\s+/g, ' ')\<close>: every maximal run of white space becomes one space.\<close>

function collapseSpaces :: "jsstring \<Rightarrow> jsstring" where
  "collapseSpaces [] = []"
| "collapseSpaces (c # cs) =
     (if isWhiteSpace c then 32 # collapseSpaces (dropWhile isWhiteSpace cs)
      else c # collapseSpaces cs)"
  by pat_completeness auto
termination
  by (relation "measure length") (auto intro: le_imp_less_Suc length_dropWhile_le)

text \<open>Removal of the zero-width characters U+200B to U+200D and U+FEFF.\<close>

definition isZeroWidth :: "nat \<Rightarrow> bool" where
  "isZeroWidth c \<longleftrightarrow> (8203 \<le> c \<and> c \<le> 8205) \<or> c = 65279"

definition stripZeroWidth :: "jsstring \<Rightarrow> jsstring" where
  "stripZeroWidth s = filter (\<lambda>c. \<not> isZeroWidth c) s"

text \<open>\<open>s.includes(sub)\<close>: \<open>sub\<close> occurs in \<open>s\<close> as a contiguous run of code units.\<close>

fun includesStr :: "jsstring \<Rightarrow> jsstring \<Rightarrow> bool" where
  "includesStr [] sub = (sub = [])"
| "includesStr (c # cs) sub = (take (length sub) (c # cs) = sub \<or> includesStr cs sub)"

definition startsWith :: "jsstring \<Rightarrow> jsstring \<Rightarrow> bool" where
  "startsWith s pre = (take (length pre) s = pre)"

text \<open>\<open>s.split(sep)\<close> for a separator that matches single characters.\<close>

fun splitOn :: "(nat \<Rightarrow> bool) \<Rightarrow> jsstring \<Rightarrow> jsstring list" where
  "splitOn p [] = [[]]"
| "splitOn p (c # cs) =
     (if p c then [] # splitOn p cs
      else (case splitOn p cs of [] \<Rightarrow> [[c]] | r # rs \<Rightarrow> (c # r) # rs))"

text \<open>\<open>xs.join(sep)\<close> on strings.\<close>

fun joinWith :: "jsstring \<Rightarrow> jsstring list \<Rightarrow> jsstring" where
  "joinWith sep [] = []"
| "joinWith sep [x] = x"
| "joinWith sep (x # y # ys) = x @ sep @ joinWith sep (y # ys)"

text \<open>Decimal digits of a natural number, and \<open>Number.prototype.toString\<close> on an integer.\<close>

fun digitsOf :: "nat \<Rightarrow> jsstring" where
  "digitsOf n = (if n < 10 then [48 + n] else digitsOf (n div 10) @ [48 + n mod 10])"

declare digitsOf.simps [simp del]

definition numberToString :: "int \<Rightarrow> jsstring" where
  "numberToString n = (if n < 0 then 45 # digitsOf (nat (- n)) else digitsOf (nat n))"

text \<open>
  The values a parsed JSON document and the property reads of this program produce.
  Numbers are the integers a double holds exactly and prints in full (identifiers and
  hadith numbers: below \<open>2^53\<close> in magnitude); fractions and larger numbers are not
  modelled. An object is the list of its own properties, looked up by key.
\<close>

datatype jsval =
    JUndefined
  | JNull
  | JBool bool
  | JNum int
  | JStr jsstring
  | JArr "jsval list"
  | JObj "(jsstring \<times> jsval) list"

datatype jsError =
    TypeError
  | ValidationError
  | TransportError
  | StorageError

fun truthy :: "jsval \<Rightarrow> bool" where
  "truthy JUndefined = False"
| "truthy JNull = False"
| "truthy (JBool b) = b"
| "truthy (JNum n) = (n \<noteq> 0)"
| "truthy (JStr s) = (s \<noteq> [])"
| "truthy (JArr xs) = True"
| "truthy (JObj kvs) = True"

fun nullish :: "jsval \<Rightarrow> bool" where
  "nullish JUndefined = True"
| "nullish JNull = True"
| "nullish v = False"

text \<open>\<open>a || b\<close>.\<close>

definition orElse :: "jsval \<Rightarrow> jsval \<Rightarrow> jsval" where
  "orElse a b = (if truthy a then a else b)"

text \<open>
  \<open>v.key\<close> on a value that is neither \<open>null\<close> nor \<open>undefined\<close>, for the field names this
  program reads (none of them is a member of a built-in prototype): an object answers
  with its own property, every other value with \<open>undefined\<close>.
\<close>

fun propOf :: "jsval \<Rightarrow> string \<Rightarrow> jsval" where
  "propOf (JObj kvs) k = (case map_of kvs (S k) of Some v \<Rightarrow> v | None \<Rightarrow> JUndefined)"
| "propOf v k = JUndefined"

text \<open>
  Conversion to a string (\<open>v.toString()\<close>, and the conversion \<open>Array.prototype.join\<close>
  applies to each element). A plain object answers \<open>[object Object]\<close>; an object parsed
  from JSON that has an own property \<open>toString\<close> shadows the method with a value that is
  not callable, and the conversion throws. \<open>join\<close> writes \<open>null\<close> and \<open>undefined\<close> as
  the empty string.
\<close>

fun joinResults :: "jsstring \<Rightarrow> (jsError + jsstring) list \<Rightarrow> jsError + jsstring" where
  "joinResults sep [] = Inr []"
| "joinResults sep [r] = r"
| "joinResults sep (r # r' # rs) =
     (case r of
        Inl e \<Rightarrow> Inl e
      | Inr x \<Rightarrow> (case joinResults sep (r' # rs) of
                    Inl e \<Rightarrow> Inl e
                  | Inr y \<Rightarrow> Inr (x @ sep @ y)))"

fun jsToString :: "jsval \<Rightarrow> jsError + jsstring" where
  "jsToString JUndefined = Inr (S ''undefined'')"
| "jsToString JNull = Inr (S ''null'')"
| "jsToString (JBool b) = Inr (if b then S ''true'' else S ''false'')"
| "jsToString (JNum n) = Inr (numberToString n)"
| "jsToString (JStr s) = Inr s"
| "jsToString (JArr xs) =
     joinResults (S '','') (map (\<lambda>x. if nullish x then Inr [] else jsToString x) xs)"
| "jsToString (JObj kvs) =
     (if S ''toString'' \<in> fst ` set kvs then Inl TypeError else Inr (S ''[object Object]''))"

text \<open>\<open>params.join(sep)\<close> on an array of values.\<close>

definition joinValues :: "jsstring \<Rightarrow> jsval list \<Rightarrow> jsError + jsstring" where
  "joinValues sep xs =
     joinResults sep (map (\<lambda>x. if nullish x then Inr [] else jsToString x) xs)"

text \<open>\<open>v?.toString()\<close>: \<open>undefined\<close> (here \<open>None\<close>) when \<open>v\<close> is \<open>null\<close> or \<open>undefined\<close>.\<close>

definition optToString :: "jsval \<Rightarrow> jsError + jsstring option" where
  "optToString v =
     (if nullish v then Inr None
      else (case jsToString v of Inl e \<Rightarrow> Inl e | Inr s \<Rightarrow> Inr (Some s)))"

text \<open>
  The library functions whose tables are not part of the program: Unicode normalisation
  (\<open>normalize('NFKC')\<close>), \<open>toLowerCase\<close>, the substring filter of the database
  (\<open>contains\<close>), and the database client's reading of an object given as the condition on
  a text column (a test on the column, or the rejection of the query).
\<close>

record builtins =
  nfkc :: "jsstring \<Rightarrow> jsstring"
  toLowerCase :: "jsstring \<Rightarrow> jsstring"
  dbContains :: "jsstring \<Rightarrow> jsstring \<Rightarrow> bool"
  prismaFilter :: "(jsstring \<times> jsval) list \<Rightarrow> jsError + (jsstring option \<Rightarrow> bool)"

section \<open>Logging\<close>

text \<open>
  The logger's calls, in the order they are made: \<open>logError(error, {operation})\<close>,
  \<open>warn\<close>, \<open>info\<close>, \<open>security\<close> (each with its message) and \<open>cache(operation, key)\<close>.
\<close>

datatype logEntry =
    LogError jsError string
  | LogWarn string
  | LogInfo string
  | LogSecurity string
  | LogCache string jsstring
  | LogActivity string

section \<open>The update context\<close>

text \<open>The sender of an update (\<open>ctx.from\<close>) and a row of the user table (\<open>ctx.user\<close>).\<close>

record tgUser =
  tg_id :: int
  is_bot :: bool
  tg_username :: "jsstring option"

record user =
  user_id :: int
  telegramId :: int
  username :: "jsstring option"
  isBlocked :: bool
  isActive :: bool
  isPremium :: bool
  preferences :: "jsstring option"

text \<open>
  The fields of the context the middlewares read: \<open>ctx.from\<close>, \<open>ctx.botInfo?.id\<close>,
  \<open>ctx.user\<close>, \<open>ctx.message?.text\<close> and \<open>ctx.callbackQuery\<close> with its \<open>data\<close> (a callback
  query may carry no data), and whether the context has the method \<open>ctx.safeReply\<close>. That
  method is not part of the framework's context: only \<open>addContextHelpers\<close> attaches it,
  and the authentication gate calls \<open>addContextHelpers\<close> after it has set \<open>ctx.user\<close> and
  the session entry. An update the gate passes on from its \<open>catch\<close> block after a failure
  before that call reaches the rate limiter without it.
\<close>

record ctx =
  fromUser :: "tgUser option"
  botInfo :: "int option"
  ctxUser :: "user option"
  messageText :: "jsstring option"
  callbackQuery :: "jsstring option option"
  safeReply :: bool

section \<open>Configuration\<close>

text \<open>
  \<open>config.rateLimits\<close> is a table of constants; the administrator's identity
  (\<open>ADMIN_ID\<close>) and the cache lifetime in seconds (\<open>CACHE_TTL\<close>) come from the environment.
\<close>

datatype limitCfg = LimitCfg (requestsOf: int) (windowOf: int)

record rateLimitsCfg =
  rl_search :: limitCfg
  rl_random :: limitCfg
  rl_favorite :: limitCfg
  rl_reminder :: limitCfg
  rl_admin :: limitCfg

definition rateLimits :: rateLimitsCfg where
  "rateLimits =
     \<lparr> rl_search = LimitCfg 30 60000,
       rl_random = LimitCfg 10 60000,
       rl_favorite = LimitCfg 50 60000,
       rl_reminder = LimitCfg 20 300000,
       rl_admin = LimitCfg 100 60000 \<rparr>"

record config =
  adminId :: int
  cacheTtl :: int

section \<open>Rate limiter\<close>

datatype operation = Search | Random | Favorite | Admin | Command | Callback


text \<open>\<open>ctx.message?.text?.startsWith('/')\<close>.\<close>

definition isCommandText :: "ctx \<Rightarrow> bool" where
  "isCommandText c = (case messageText c of None \<Rightarrow> False | Some t \<Rightarrow> startsWith t (S ''/''))"

text \<open>\<open>ctx.user?.telegramId === config.bot.adminId\<close>.\<close>

definition isAdminCtx :: "config \<Rightarrow> ctx \<Rightarrow> bool" where
  "isAdminCtx cfg c = (case ctxUser c of None \<Rightarrow> False | Some u \<Rightarrow> telegramId u = adminId cfg)"

text \<open>The callback-query part of \<open>determineRateLimit\<close>; \<open>data.startsWith\<close> throws when the
  query has no data.\<close>

definition callbackRateLimit ::
  "bool \<Rightarrow> int \<Rightarrow> jsstring option \<Rightarrow> jsError + (operation \<times> int \<times> int) option" where
  "callbackRateLimit isAdmin multiplier dataOpt =
     (case dataOpt of
        None \<Rightarrow> Inl TypeError
      | Some d \<Rightarrow>
          if startsWith d (S ''search_'') \<or> startsWith d (S ''nav_'') then
            Inr (Some (Search, requestsOf (rl_search rateLimits) * multiplier,
                       windowOf (rl_search rateLimits)))
          else if startsWith d (S ''favorite_'') then
            Inr (Some (Favorite, requestsOf (rl_favorite rateLimits) * multiplier,
                       windowOf (rl_favorite rateLimits)))
          else if startsWith d (S ''admin_'') \<and> isAdmin then
            Inr (Some (Admin, requestsOf (rl_admin rateLimits), windowOf (rl_admin rateLimits)))
          else Inr (Some (Callback, 100 * multiplier, 60000)))"

text \<open>What \<open>determineRateLimit\<close> does once the command part has not returned.\<close>

definition afterCommand ::
  "bool \<Rightarrow> int \<Rightarrow> ctx \<Rightarrow> jsError + (operation \<times> int \<times> int) option" where
  "afterCommand isAdmin multiplier c =
     (case callbackQuery c of
        Some dataOpt \<Rightarrow> callbackRateLimit isAdmin multiplier dataOpt
      | None \<Rightarrow>
          (case messageText c of
             Some t \<Rightarrow>
               if t \<noteq> [] \<and> \<not> startsWith t (S ''/'') then
                 Inr (Some (Search, requestsOf (rl_search rateLimits) * multiplier,
                            windowOf (rl_search rateLimits)))
               else Inr None
           | None \<Rightarrow> Inr None))"

definition determineRateLimit ::
  "builtins \<Rightarrow> config \<Rightarrow> ctx \<Rightarrow> jsError + (operation \<times> int \<times> int) option" where
  "determineRateLimit B cfg c =
     (let isAdmin = isAdminCtx cfg c;
          multiplier = (if isAdmin then 5 else 1)
      in if isCommandText c then
           (case messageText c of
              None \<Rightarrow> afterCommand isAdmin multiplier c
            | Some t \<Rightarrow>
               (let command = toLowerCase B (takeWhile (\<lambda>ch. ch \<noteq> 32) t)
                in if command = S ''/search'' then
                     Inr (Some (Search, requestsOf (rl_search rateLimits) * multiplier,
                                windowOf (rl_search rateLimits)))
                   else if command = S ''/random'' then
                     Inr (Some (Random, requestsOf (rl_random rateLimits) * multiplier,
                                windowOf (rl_random rateLimits)))
                   else if command = S ''/favorites'' \<or> command = S ''/fav'' then
                     Inr (Some (Favorite, requestsOf (rl_favorite rateLimits) * multiplier,
                                windowOf (rl_favorite rateLimits)))
                   else if command = S ''/admin'' then
                     (if isAdmin then
                        Inr (Some (Admin, requestsOf (rl_admin rateLimits),
                                   windowOf (rl_admin rateLimits)))
                      else afterCommand isAdmin multiplier c)
                   else Inr (Some (Command, 50 * multiplier, 60000))))
         else afterCommand isAdmin multiplier c)"














text \<open>The limit of a category before the multiplier: the configured \<open>requests\<close> of the
  search, random, favorite and admin categories, and the literals 50 and 100 of the generic
  command and callback categories.\<close>

definition baseLimit :: "operation \<Rightarrow> int" where
  "baseLimit operation =
     (case operation of
        Search \<Rightarrow> requestsOf (rl_search rateLimits)
      | Random \<Rightarrow> requestsOf (rl_random rateLimits)
      | Favorite \<Rightarrow> requestsOf (rl_favorite rateLimits)
      | Admin \<Rightarrow> requestsOf (rl_admin rateLimits)
      | Command \<Rightarrow> 50
      | Callback \<Rightarrow> 100)"

section \<open>Hadith records, the storage tables and the world\<close>

text \<open>
  The normalised record (\<open>hadithData\<close>) and the row of the hadith table have the same
  fields; \<open>updatedAt\<close> is the column the update writes (\<open>None\<close> on a record this code
  has not updated). The columns the program never writes itself are left out. The fields
  \<open>id\<close>, \<open>text\<close>, \<open>chapter\<close> and \<open>keywords\<close> carry the prefix \<open>hadith_\<close>.
\<close>

record hadith =
  hadith_id :: jsstring
  dorarId :: "jsstring option"
  hadith_text :: jsstring
  arabicText :: jsstring
  narrator :: jsstring
  source :: jsstring
  book :: jsstring
  hadith_chapter :: jsstring
  hadithNumber :: "jsstring option"
  grade :: "jsstring option"
  topic :: "jsstring option"
  hadith_keywords :: jsstring
  translation :: jsstring
  explanation :: jsstring
  isVerified :: bool
  updatedAt :: "int option"

text \<open>A row of the cache table: the stored list (kept as the list its JSON text encodes)
  and the absolute expiry in milliseconds.\<close>

record cacheRow =
  cacheData :: "hadith list"
  expiresAt :: int

text \<open>
  The state the search client works on: the hadith table (rows in storage order), the
  cache table, the log, and the requests sent to the external API so far (the search key
  and the extra options of each).
\<close>

record world =
  hadithTable :: "hadith list"
  cacheTable :: "jsstring \<Rightarrow> cacheRow option"
  logs :: "logEntry list"
  apiRequests :: "(jsstring \<times> jsval) list"

definition addLog :: "logEntry \<Rightarrow> world \<Rightarrow> world" where
  "addLog e w = w\<lparr> logs := logs w @ [e] \<rparr>"

section \<open>Normalisation\<close>

definition cleanText :: "jsval \<Rightarrow> jsstring" where
  "cleanText v =
     (case v of
        JStr s \<Rightarrow> if s = [] then [] else stripZeroWidth (collapseSpaces (trim s))
      | _ \<Rightarrow> [])"

definition cleanArabicText :: "builtins \<Rightarrow> jsval \<Rightarrow> jsstring" where
  "cleanArabicText B v =
     (case v of
        JStr s \<Rightarrow> if s = [] then [] else stripZeroWidth (nfkc B (collapseSpaces (trim s)))
      | _ \<Rightarrow> [])"

text \<open>
  The grade table: the four Arabic labels map to themselves, the four transliterations
  to their Arabic label. The lookup is on the table's own keys. (The table is an object
  literal, so that the grades \<open>constructor\<close> and \<open>__proto__\<close> find a member it inherits,
  which is not a string; such a grade has no place in the record type below and is read
  here as a grade that is not in the table.)
\<close>

definition gradeMap :: "(jsstring \<times> jsstring) list" where
  "gradeMap =
     [([1589, 1581, 1610, 1581], [1589, 1581, 1610, 1581]),
      ([1581, 1587, 1606], [1581, 1587, 1606]),
      ([1590, 1593, 1610, 1601], [1590, 1593, 1610, 1601]),
      ([1605, 1608, 1590, 1608, 1593], [1605, 1608, 1590, 1608, 1593]),
      (S ''sahih'', [1589, 1581, 1610, 1581]),
      (S ''hasan'', [1581, 1587, 1606]),
      (S ''weak'', [1590, 1593, 1610, 1601]),
      (S ''fabricated'', [1605, 1608, 1590, 1608, 1593])]"

definition normalizeGrade :: "builtins \<Rightarrow> jsval \<Rightarrow> jsstring option" where
  "normalizeGrade B v =
     (case v of
        JStr s \<Rightarrow>
          if s = [] then None
          else (let normalized = trim (toLowerCase B s)
                in case map_of gradeMap normalized of
                     Some g \<Rightarrow> Some g
                   | None \<Rightarrow> Some (trim s))
      | _ \<Rightarrow> None)"

text \<open>\<open>field && typeof field === 'string' && field.trim()\<close>.\<close>

definition isTopicField :: "jsval \<Rightarrow> bool" where
  "isTopicField v = (case v of JStr s \<Rightarrow> trim s \<noteq> [] | _ \<Rightarrow> False)"

definition extractTopic :: "jsval \<Rightarrow> jsstring option" where
  "extractTopic rawHadith =
     (case filter isTopicField
             (map (propOf rawHadith) [''topic'', ''subject'', ''category'', ''bab'', ''chapter'']) of
        [] \<Rightarrow> None
      | field # _ \<Rightarrow> Some (cleanText field))"

text \<open>\<open>Set.prototype.add\<close> on a set kept in insertion order.\<close>

definition setAdd :: "jsstring list \<Rightarrow> jsstring \<Rightarrow> jsstring list" where
  "setAdd ks k = (if k \<in> set ks then ks else ks @ [k])"

text \<open>The explicit keywords: the array itself, or the string split at \<open>,\<close> and the Arabic
  comma; \<open>split\<close> does not exist on any other truthy value and the call throws.\<close>

definition keywordArray :: "jsval \<Rightarrow> jsError + jsval list" where
  "keywordArray kw =
     (if truthy kw then
        (case kw of
           JArr xs \<Rightarrow> Inr xs
         | JStr s \<Rightarrow> Inr (map JStr (splitOn (\<lambda>c. c = 44 \<or> c = 1548) s))
         | _ \<Rightarrow> Inl TypeError)
      else Inr [])"

definition extractKeywords :: "jsval \<Rightarrow> jsError + jsstring" where
  "extractKeywords rawHadith =
     (case keywordArray (propOf rawHadith ''keywords'') of
        Inl e \<Rightarrow> Inl e
      | Inr arr \<Rightarrow>
          (let ks1 = foldl (\<lambda>ks keyword.
                        let cleaned = cleanText keyword
                        in if cleaned \<noteq> [] then setAdd ks cleaned else ks) [] arr;
               ks2 = (if truthy (propOf rawHadith ''topic'')
                      then setAdd ks1 (cleanText (propOf rawHadith ''topic'')) else ks1);
               who = orElse (propOf rawHadith ''rawi'') (propOf rawHadith ''narrator'');
               ks3 = (if truthy who then setAdd ks2 (cleanText who) else ks2)
           in Inr (joinWith (S '', '') ks3)))"

definition verifiedSources :: "jsstring list" where
  "verifiedSources =
     [[1589, 1581, 1610, 1581, 32, 1575, 1604, 1576, 1582, 1575, 1585, 1610],
      [1589, 1581, 1610, 1581, 32, 1605, 1587, 1604, 1605],
      [1587, 1606, 1606, 32, 1571, 1576, 1610, 32, 1583, 1575, 1608, 1583],
      [1580, 1575, 1605, 1593, 32, 1575, 1604, 1578, 1585, 1605, 1584, 1610],
      [1587, 1606, 1606, 32, 1575, 1604, 1606, 1587, 1575, 1574, 1610],
      [1587, 1606, 1606, 32, 1575, 1576, 1606, 32, 1605, 1575, 1580, 1607],
      [1605, 1587, 1606, 1583, 32, 1571, 1581, 1605, 1583],
      [1605, 1608, 1591, 1571, 32, 1605, 1575, 1604, 1603]]"

definition isVerifiedSource :: "jsval \<Rightarrow> bool" where
  "isVerifiedSource v =
     (case v of
        JStr s \<Rightarrow> s \<noteq> [] \<and> list_ex (\<lambda>verified. includesStr s verified) verifiedSources
      | _ \<Rightarrow> False)"

text \<open>\<open>x || null\<close> on the result of \<open>v?.toString()\<close>.\<close>

definition orNull :: "jsstring option \<Rightarrow> jsstring option" where
  "orNull x = (case x of None \<Rightarrow> None | Some s \<Rightarrow> if s = [] then None else Some s)"

text \<open>\<open>rawHadith.hadith_number?.toString() || rawHadith.number?.toString() || null\<close>.\<close>

definition hadithNumberOf :: "jsval \<Rightarrow> jsError + jsstring option" where
  "hadithNumberOf rawHadith =
     (case optToString (propOf rawHadith ''hadith_number'') of
        Inl e \<Rightarrow> Inl e
      | Inr a \<Rightarrow>
          (case orNull a of
             Some s \<Rightarrow> Inr (Some s)
           | None \<Rightarrow>
               (case optToString (propOf rawHadith ''number'') of
                  Inl e \<Rightarrow> Inl e
                | Inr b \<Rightarrow> Inr (orNull b))))"

text \<open>
  The object literal of \<open>normalizeHadithData\<close>, with the identifier \<open>uuidv4()\<close> returned.
  Reading a property of \<open>null\<close> or \<open>undefined\<close> throws, and so do the string conversions
  and \<open>extractKeywords\<close> where they throw.
\<close>

definition buildHadithData :: "builtins \<Rightarrow> jsstring \<Rightarrow> jsval \<Rightarrow> jsError + hadith" where
  "buildHadithData B uuid rawHadith =
     (if nullish rawHadith then Inl TypeError
      else
        (case optToString (propOf rawHadith ''id'') of
           Inl e \<Rightarrow> Inl e
         | Inr idString \<Rightarrow>
        (case hadithNumberOf rawHadith of
           Inl e \<Rightarrow> Inl e
         | Inr number \<Rightarrow>
        (case extractKeywords rawHadith of
           Inl e \<Rightarrow> Inl e
         | Inr kws \<Rightarrow>
             Inr \<lparr> hadith_id = uuid,
                   dorarId = orNull idString,
                   hadith_text = cleanText (orElse (propOf rawHadith ''hadith'')
                                   (orElse (propOf rawHadith ''text'') (JStr []))),
                   arabicText = cleanArabicText B (orElse (propOf rawHadith ''hadith_ar'')
                                   (orElse (propOf rawHadith ''arabic'')
                                      (orElse (propOf rawHadith ''hadith'') (JStr [])))),
                   narrator = cleanText (orElse (propOf rawHadith ''rawi'')
                                   (orElse (propOf rawHadith ''narrator'') (JStr []))),
                   source = cleanText (orElse (propOf rawHadith ''book'')
                                   (orElse (propOf rawHadith ''source'') (JStr []))),
                   book = cleanText (orElse (propOf rawHadith ''book_name'')
                                   (orElse (propOf rawHadith ''book'') (JStr []))),
                   hadith_chapter = cleanText (orElse (propOf rawHadith ''chapter'')
                                   (orElse (propOf rawHadith ''bab'') (JStr []))),
                   hadithNumber = number,
                   grade = normalizeGrade B (orElse (propOf rawHadith ''grade'')
                                   (orElse (propOf rawHadith ''hukm'') (JStr []))),
                   topic = extractTopic rawHadith,
                   hadith_keywords = kws,
                   translation = cleanText (orElse (propOf rawHadith ''translation'') (JStr [])),
                   explanation = cleanText (orElse (propOf rawHadith ''explanation'')
                                   (orElse (propOf rawHadith ''sharh'') (JStr []))),
                   isVerified = isVerifiedSource (orElse (propOf rawHadith ''book'')
                                   (orElse (propOf rawHadith ''source'') (JStr []))),
                   updatedAt = None \<rparr>))))"

section \<open>Saving: the hadith table\<close>

text \<open>
  The table has two unique columns, \<open>id\<close> and \<open>dorarId\<close> (\<open>findUnique\<close> is called with
  each); a \<open>create\<close> or an \<open>update\<close> that would break uniqueness throws.
\<close>

definition findUniqueByDorarId :: "hadith list \<Rightarrow> jsstring \<Rightarrow> hadith option" where
  "findUniqueByDorarId t d = find (\<lambda>r. dorarId r = Some d) t"

definition prismaCreate :: "hadith list \<Rightarrow> hadith \<Rightarrow> jsError + hadith \<times> hadith list" where
  "prismaCreate t h =
     (if hadith_id h \<in> set (map hadith_id t) \<or>
         (dorarId h \<noteq> None \<and> dorarId h \<in> set (map dorarId t))
      then Inl StorageError
      else Inr (h, t @ [h]))"

fun replaceFirst :: "('a \<Rightarrow> bool) \<Rightarrow> 'a \<Rightarrow> 'a list \<Rightarrow> 'a list" where
  "replaceFirst P y [] = []"
| "replaceFirst P y (x # xs) = (if P x then y # xs else x # replaceFirst P y xs)"

text \<open>\<open>update({ where: { dorarId }, data })\<close>: every column of the row is overwritten with
  the data, the \<open>id\<close> included.\<close>

definition prismaUpdateByDorarId ::
  "hadith list \<Rightarrow> jsstring \<Rightarrow> hadith \<Rightarrow> jsError + hadith \<times> hadith list" where
  "prismaUpdateByDorarId t d newRow =
     (case findUniqueByDorarId t d of
        None \<Rightarrow> Inl StorageError
      | Some r \<Rightarrow>
          if hadith_id newRow \<noteq> hadith_id r \<and> hadith_id newRow \<in> set (map hadith_id t)
          then Inl StorageError
          else Inr (newRow, replaceFirst (\<lambda>x. dorarId x = Some d) newRow t))"

text \<open>The body of the \<open>try\<close> block of \<open>saveHadithToDatabase\<close>; \<open>currentTime\<close> is
  \<open>new Date()\<close>.\<close>

definition saveHadithTry :: "hadith \<Rightarrow> int \<Rightarrow> hadith list \<Rightarrow> jsError + hadith \<times> hadith list" where
  "saveHadithTry hadithData currentTime t =
     (case orNull (dorarId hadithData) of
        Some d \<Rightarrow>
          (case findUniqueByDorarId t d of
             Some existing \<Rightarrow>
               prismaUpdateByDorarId t d (hadithData\<lparr> updatedAt := Some currentTime \<rparr>)
           | None \<Rightarrow> prismaCreate t hadithData)
      | None \<Rightarrow> prismaCreate t hadithData)"

definition saveHadithToDatabase :: "hadith \<Rightarrow> int \<Rightarrow> world \<Rightarrow> hadith option \<times> world" where
  "saveHadithToDatabase hadithData currentTime w =
     (case saveHadithTry hadithData currentTime (hadithTable w) of
        Inr (savedHadith, t') \<Rightarrow> (Some savedHadith, w\<lparr> hadithTable := t' \<rparr>)
      | Inl e \<Rightarrow> (None, addLog (LogError e ''save_hadith_to_database'') w))"

text \<open>
  \<open>normalizeHadithData\<close>. The handler of its \<open>catch\<close> evaluates
  \<open>JSON.stringify(rawHadith).substring(0, 200)\<close> before it logs, which throws again when
  the element is \<open>undefined\<close>.
\<close>

definition normalizeHadithData ::
  "builtins \<Rightarrow> jsstring \<Rightarrow> int \<Rightarrow> jsval \<Rightarrow> world \<Rightarrow> (jsError + hadith option) \<times> world" where
  "normalizeHadithData B uuid currentTime rawHadith w =
     (case buildHadithData B uuid rawHadith of
        Inr hadithData \<Rightarrow>
          if hadith_text hadithData \<noteq> [] \<or> arabicText hadithData \<noteq> [] then
            (case saveHadithToDatabase hadithData currentTime w of
               (Some savedHadith, w') \<Rightarrow> (Inr (Some savedHadith), w')
             | (None, w') \<Rightarrow> (Inr (Some hadithData), w'))
          else (Inr None, w)
      | Inl e \<Rightarrow>
          if rawHadith = JUndefined then (Inl TypeError, w)
          else (Inr None, addLog (LogError e ''normalize_hadith_data'') w))"

text \<open>
  The loop of \<open>processSearchResponse\<close>; element \<open>i\<close> of the response gets the identifier
  \<open>uuids i\<close>. The handler of the inner \<open>catch\<close> evaluates the same
  \<open>JSON.stringify(rawHadith).substring\<close> and throws out of the loop for \<open>undefined\<close>.
\<close>

fun processElements ::
  "builtins \<Rightarrow> (nat \<Rightarrow> jsstring) \<Rightarrow> int \<Rightarrow> nat \<Rightarrow> jsval list \<Rightarrow> hadith list \<Rightarrow> world \<Rightarrow>
   (jsError + hadith list) \<times> world" where
  "processElements B uuids currentTime i [] processedHadiths w = (Inr processedHadiths, w)"
| "processElements B uuids currentTime i (rawHadith # rest) processedHadiths w =
     (case normalizeHadithData B (uuids i) currentTime rawHadith w of
        (Inr (Some processedHadith), w') \<Rightarrow>
          processElements B uuids currentTime (Suc i) rest (processedHadiths @ [processedHadith]) w'
      | (Inr None, w') \<Rightarrow>
          processElements B uuids currentTime (Suc i) rest processedHadiths w'
      | (Inl e, w') \<Rightarrow>
          if rawHadith = JUndefined then (Inl TypeError, w')
          else processElements B uuids currentTime (Suc i) rest processedHadiths
                 (addLog (LogWarn ''Failed to process individual hadith'') w'))"

definition processSearchResponse ::
  "builtins \<Rightarrow> (nat \<Rightarrow> jsstring) \<Rightarrow> int \<Rightarrow> jsval \<Rightarrow> world \<Rightarrow> hadith list \<times> world" where
  "processSearchResponse B uuids currentTime responseData w =
     (case responseData of
        JArr elements \<Rightarrow>
          (case processElements B uuids currentTime 0 elements [] w of
             (Inr processedHadiths, w') \<Rightarrow> (processedHadiths, w')
           | (Inl e, w') \<Rightarrow> ([], addLog (LogError e ''process_search_response'') w'))
      | _ \<Rightarrow> ([], addLog (LogWarn ''Invalid API response format'') w))"

text \<open>
  The two ways an element of the response gives no record: building the record throws, or
  the record built has neither text nor Arabic text. (The identifier does not matter.) And
  the log entries of a failed save.
\<close>

definition normalizationThrows :: "builtins \<Rightarrow> jsval \<Rightarrow> bool" where
  "normalizationThrows B rawHadith =
     (case buildHadithData B [] rawHadith of Inl e \<Rightarrow> True | Inr h \<Rightarrow> False)"

definition lacksText :: "builtins \<Rightarrow> jsval \<Rightarrow> bool" where
  "lacksText B rawHadith =
     (case buildHadithData B [] rawHadith of
        Inl e \<Rightarrow> False
      | Inr h \<Rightarrow> hadith_text h = [] \<and> arabicText h = [])"

definition yieldsNoRecord :: "builtins \<Rightarrow> jsval \<Rightarrow> bool" where
  "yieldsNoRecord B rawHadith \<longleftrightarrow> normalizationThrows B rawHadith \<or> lacksText B rawHadith"

definition isSaveLog :: "logEntry \<Rightarrow> bool" where
  "isSaveLog x = (case x of LogError e op \<Rightarrow> op = ''save_hadith_to_database'' | _ \<Rightarrow> False)"

text \<open>The stored records that carry a given external identifier, and the table in which
  no two records carry the same one.\<close>

definition storedWith :: "jsstring \<Rightarrow> hadith list \<Rightarrow> hadith list" where
  "storedWith d t = filter (\<lambda>r. dorarId r = Some d) t"

definition dorarIdsUnique :: "hadith list \<Rightarrow> bool" where
  "dorarIdsUnique t = distinct (List.map_filter dorarId t)"

section \<open>The cache\<close>

text \<open>\<open>key.replace(/[^a-zA-Z0-9:_-]/g, '_')\<close> keeps these code units and writes \<open>_\<close> for
  every other one.\<close>

definition isKeyChar :: "nat \<Rightarrow> bool" where
  "isKeyChar c \<longleftrightarrow>
     (97 \<le> c \<and> c \<le> 122) \<or> (65 \<le> c \<and> c \<le> 90) \<or> (48 \<le> c \<and> c \<le> 57) \<or>
     c = 58 \<or> c = 95 \<or> c = 45"

text \<open>\<open>generateCacheKey(operation, ...params)\<close>; \<open>params.join(':')\<close> converts every
  parameter to a string.\<close>

definition generateCacheKey :: "jsstring \<Rightarrow> jsval list \<Rightarrow> jsError + jsstring" where
  "generateCacheKey operation params =
     (case joinValues (S '':'') params of
        Inl e \<Rightarrow> Inl e
      | Inr joined \<Rightarrow>
          (let key = S ''hadith_api:'' @ operation @ S '':'' @ joined
           in Inr (take 250 (map (\<lambda>c. if isKeyChar c then c else 95) key))))"

section \<open>The world outside one call\<close>

text \<open>
  What one call meets outside the program: the reading of the clock, the answer of the
  external API to a request (an error for a transport failure or a status outside 2xx,
  else the parsed body), the identifiers \<open>uuidv4()\<close> returns, and the storage errors of the
  queries on the cache table (\<open>prisma.cache.findUnique\<close>, \<open>delete\<close>, \<open>upsert\<close>) and of the
  two reads of \<open>getRandomFromDatabase\<close> (\<open>prisma.hadith.count\<close>, \<open>findFirst\<close>), \<open>None\<close> when
  the query is answered.
\<close>

record env =
  clock :: int
  apiResponse :: "jsError + jsval"
  uuids :: "nat \<Rightarrow> jsstring"
  cacheFindError :: "jsError option"
  cacheDeleteError :: "jsError option"
  cacheUpsertError :: "jsError option"
  hadithCountError :: "jsError option"
  hadithFindError :: "jsError option"

section \<open>The cache table\<close>

text \<open>The \<open>try\<close> block of \<open>db.cache.get\<close>: a missing row is a miss, an expired row is
  deleted and is a miss, any other row is a hit; a query that fails throws.\<close>

definition cacheGetTry :: "env \<Rightarrow> jsstring \<Rightarrow> world \<Rightarrow> jsError + (hadith list option \<times> world)" where
  "cacheGetTry e key w =
     (case cacheFindError e of
        Some err \<Rightarrow> Inl err
      | None \<Rightarrow>
          (case cacheTable w key of
             None \<Rightarrow> Inr (None, addLog (LogCache ''miss'' key) w)
           | Some cached \<Rightarrow>
               if expiresAt cached < clock e then
                 (case cacheDeleteError e of
                    Some err \<Rightarrow> Inl err
                  | None \<Rightarrow>
                      Inr (None,
                           addLog (LogCache ''expired'' key)
                             (w\<lparr> cacheTable := (cacheTable w)(key := None) \<rparr>)))
               else Inr (Some (cacheData cached), addLog (LogCache ''hit'' key) w)))"

text \<open>\<open>db.cache.get\<close>: an error is logged and the answer is \<open>null\<close>, as for a miss.\<close>

definition cacheGet :: "env \<Rightarrow> jsstring \<Rightarrow> world \<Rightarrow> hadith list option \<times> world" where
  "cacheGet e key w =
     (case cacheGetTry e key w of
        Inr answer \<Rightarrow> answer
      | Inl err \<Rightarrow> (None, addLog (LogError err ''cache_get'') w))"

text \<open>\<open>getFromCache\<close> calls \<open>db.cache.get\<close> inside a \<open>try\<close> block of its own. Its handler
  does what the handler of \<open>db.cache.get\<close> does, and is never entered: \<open>db.cache.get\<close>
  has caught every error itself.\<close>

definition getFromCache :: "env \<Rightarrow> jsstring \<Rightarrow> world \<Rightarrow> hadith list option \<times> world" where
  "getFromCache e key w = cacheGet e key w"

text \<open>The \<open>try\<close> block of \<open>db.cache.set\<close>: an upsert on the key.\<close>

definition cacheSetTry :: "env \<Rightarrow> jsstring \<Rightarrow> hadith list \<Rightarrow> int \<Rightarrow> world \<Rightarrow> jsError + world" where
  "cacheSetTry e key data expiry w =
     (case cacheUpsertError e of
        Some err \<Rightarrow> Inl err
      | None \<Rightarrow>
          Inr (w\<lparr> cacheTable := (cacheTable w)(key \<mapsto> \<lparr> cacheData = data, expiresAt = expiry \<rparr>) \<rparr>))"

text \<open>\<open>db.cache.set\<close>: a failed write is logged and nothing is stored.\<close>

definition cacheSet :: "env \<Rightarrow> jsstring \<Rightarrow> hadith list \<Rightarrow> int \<Rightarrow> world \<Rightarrow> world" where
  "cacheSet e key data expiry w =
     (case cacheSetTry e key data expiry w of
        Inr w' \<Rightarrow> w'
      | Inl err \<Rightarrow> addLog (LogError err ''cache_set'') w)"

text \<open>\<open>setCache\<close> is always called without a lifetime of its own and takes the configured
  one, in seconds. Like \<open>getFromCache\<close> it has a handler of its own that is never
  entered.\<close>

definition setCache :: "config \<Rightarrow> env \<Rightarrow> jsstring \<Rightarrow> hadith list \<Rightarrow> world \<Rightarrow> world" where
  "setCache cfg e key data w = cacheSet e key data (clock e + cacheTtl cfg * 1000) w"

section \<open>Search\<close>

text \<open>\<open>!query || typeof query !== 'string' || query.trim().length === 0\<close>.\<close>

definition invalidQuery :: "jsval \<Rightarrow> bool" where
  "invalidQuery query = (case query of JStr q \<Rightarrow> q = [] \<or> trim q = [] | _ \<Rightarrow> True)"

definition trimmedQueryOf :: "jsval \<Rightarrow> jsstring" where
  "trimmedQueryOf query = (case query of JStr q \<Rightarrow> trim q | _ \<Rightarrow> [])"

text \<open>The default value of the parameter \<open>options = {}\<close>.\<close>

definition optionsOrDefault :: "jsval \<Rightarrow> jsval" where
  "optionsOrDefault options = (if options = JUndefined then JObj [] else options)"

text \<open>The body of the \<open>try\<close> block of \<open>search\<close>. The request is recorded when it is
  sent, before its answer is known. (The entries the logging interceptors of the HTTP
  client write are left out.)\<close>

definition searchTry ::
  "builtins \<Rightarrow> config \<Rightarrow> env \<Rightarrow> jsval \<Rightarrow> jsval \<Rightarrow> world \<Rightarrow> (jsError + hadith list) \<times> world" where
  "searchTry B cfg e query options w =
     (if invalidQuery query then (Inl ValidationError, w)
      else
        (let trimmedQuery = trimmedQueryOf query in
         case generateCacheKey (S ''search'') [JStr trimmedQuery, optionsOrDefault options] of
           Inl err \<Rightarrow> (Inl err, w)
         | Inr cacheKey \<Rightarrow>
             (case getFromCache e cacheKey w of
                (Some cached, w1) \<Rightarrow> (Inr cached, addLog (LogCache ''hit'' cacheKey) w1)
              | (None, w1) \<Rightarrow>
                  (let w2 = w1\<lparr> apiRequests :=
                                 apiRequests w1 @ [(trimmedQuery, optionsOrDefault options)] \<rparr>
                   in case apiResponse e of
                        Inl err \<Rightarrow> (Inl err, w2)
                      | Inr responseData \<Rightarrow>
                          (let (hadiths, w3) =
                                 processSearchResponse B (uuids e) (clock e) responseData w2;
                               w4 = setCache cfg e cacheKey hadiths w3
                           in (Inr hadiths, addLog (LogInfo ''Hadith search completed'') w4))))))"

text \<open>\<open>search\<close>: whatever the \<open>try\<close> block throws is logged and the caller gets the empty
  list.\<close>

definition search ::
  "builtins \<Rightarrow> config \<Rightarrow> env \<Rightarrow> jsval \<Rightarrow> jsval \<Rightarrow> world \<Rightarrow> (jsError + hadith list) \<times> world" where
  "search B cfg e query options w =
     (case searchTry B cfg e query options w of
        (Inr hadiths, w') \<Rightarrow> (Inr hadiths, w')
      | (Inl err, w') \<Rightarrow> (Inr [], addLog (LogError err ''hadith_search'') w'))"

section \<open>Random hadith\<close>



text \<open>The default value of the parameter \<open>filters = {}\<close>.\<close>

definition filtersOrDefault :: "jsval \<Rightarrow> jsval" where
  "filtersOrDefault fs = (if fs = JUndefined then JObj [] else fs)"










section \<open>Filters and the records that match them\<close>





section \<open>The session and authentication gate\<close>

text \<open>
  What the gate meets outside the program while it handles one update: the answer of
  \<open>db.user.findOrCreate\<close> (the row, \<open>null\<close>, or the error it rethrows), whether
  \<open>ctx.reply\<close>, the reactivating \<open>prisma.user.update\<close> and \<open>JSON.parse\<close> of the stored
  preferences throw, and the error, if any, of the first and of the second call of
  \<open>next()\<close>.
\<close>

record authEnv =
  findOrCreateResult :: "jsError + user option"
  replyError :: "jsError option"
  reactivateError :: "jsError option"
  preferencesError :: "jsError option"
  nextError :: "jsError option"
  secondNextError :: "jsError option"

text \<open>
  What the gate does, in order: log entries, the reply to the sender, the write that
  reactivates the user, the detached write of the activity time, and the call of the
  downstream chain \<open>next()\<close>. (The debug entry of \<open>logger.telegramUpdate\<close> and the
  performance entry of a slow pass are left out.)
\<close>

datatype effect =
    Logged logEntry
  | Replied jsstring
  | Reactivated int
  | ActivityUpdated int
  | NextCalled

text \<open>The message for a blocked user.\<close>

definition blockedMessage :: jsstring where
  "blockedMessage =
     [9940, 32, 1578, 1605, 32, 1581, 1592, 1585, 32, 1581, 1587, 1575, 1576, 1603, 32, 1605,
      1606, 32, 1575, 1587, 1578, 1582, 1583, 1575, 1605, 32, 1575, 1604, 1576, 1608, 1578]"

text \<open>
  The steps of the \<open>try\<close> block after the blocked check, for a user that is not blocked:
  reactivation, the activity write, \<open>ctx.user = user\<close>, the parsing of the stored
  preferences for the session, \<open>addContextHelpers(ctx)\<close> and \<open>next()\<close>. The result is the
  error thrown, if any, with the effects so far and the context as it is then. (The
  session entry is not part of the state, and of the helper methods attached to the
  context only \<open>safeReply\<close> is.)
\<close>

definition admitUser :: "authEnv \<Rightarrow> ctx \<Rightarrow> user \<Rightarrow> jsError option \<times> effect list \<times> ctx" where
  "admitUser env c u =
     (let reactivation =
            (if isActive u then []
             else [Logged (LogActivity ''inactive_user_access'')])
      in case (if isActive u then None else reactivateError env) of
           Some err \<Rightarrow> (Some err, reactivation, c)
         | None \<Rightarrow>
             (let effects = reactivation @ (if isActive u then [] else [Reactivated (user_id u)]) @
                            [ActivityUpdated (user_id u)];
                  c' = c\<lparr> ctxUser := Some u \<rparr>
              in case (if preferences u = None \<or> preferences u = Some [] then None
                       else preferencesError env) of
                   Some err \<Rightarrow> (Some err, effects, c')
                 | None \<Rightarrow> (nextError env, effects @ [NextCalled], c'\<lparr> safeReply := True \<rparr>)))"

text \<open>The body of the \<open>try\<close> block of \<open>authMiddleware\<close>.\<close>

definition authTry :: "authEnv \<Rightarrow> ctx \<Rightarrow> jsError option \<times> effect list \<times> ctx" where
  "authTry env c =
     (case fromUser c of
        None \<Rightarrow> (None, [Logged (LogWarn ''No user information in update'')], c)
      | Some telegramUser \<Rightarrow>
          if is_bot telegramUser \<and> Some (tg_id telegramUser) \<noteq> botInfo c then
            (None, [Logged (LogSecurity ''Bot user detected'')], c)
          else
            (case findOrCreateResult env of
               Inl err \<Rightarrow> (Some err, [Logged (LogError err ''user_find_or_create'')], c)
             | Inr None \<Rightarrow> (None, [Logged (LogWarn ''Failed to create/find user'')], c)
             | Inr (Some u) \<Rightarrow>
                 if isBlocked u then
                   (case replyError env of
                      Some err \<Rightarrow>
                        (Some err, [Logged (LogSecurity ''Blocked user attempted access'')], c)
                    | None \<Rightarrow>
                        (None, [Logged (LogSecurity ''Blocked user attempted access''),
                                Replied blockedMessage], c))
                 else admitUser env c u))"

text \<open>
  \<open>authMiddleware\<close>: whatever the \<open>try\<close> block throws is logged, and the handler calls
  \<open>next()\<close> so that the request is not blocked; an error of that call is logged too.
\<close>

definition authMiddleware :: "authEnv \<Rightarrow> ctx \<Rightarrow> effect list \<times> ctx" where
  "authMiddleware env c =
     (case authTry env c of
        (None, effects, c') \<Rightarrow> (effects, c')
      | (Some err, effects, c') \<Rightarrow>
          (effects @ [Logged (LogError err ''auth_middleware''), NextCalled] @
             (case secondNextError env of
                None \<Rightarrow> []
              | Some nextErr \<Rightarrow> [Logged (LogError nextErr ''auth_middleware_next'')]),
           c'))"

text \<open>The sender is a bot other than this one (such updates are dropped before the user
  is looked up).\<close>

definition isForeignBot :: "ctx \<Rightarrow> bool" where
  "isForeignBot c =
     (case fromUser c of None \<Rightarrow> False
      | Some telegramUser \<Rightarrow> is_bot telegramUser \<and> Some (tg_id telegramUser) \<noteq> botInfo c)"

section \<open>Concrete inputs\<close>

text \<open>
  A concrete choice of the library functions for the inputs below, which are ASCII text
  and Arabic letters without marks: on these, normalisation changes nothing, only the
  letters \<open>A\<close> to \<open>Z\<close> have a lower case of their own, and the substring filter is
  \<open>includes\<close>. No input below carries a filter expression, and this client reads none.
\<close>

definition asciiBuiltins :: builtins where
  "asciiBuiltins =
     \<lparr> nfkc = (\<lambda>s. s),
       toLowerCase = map (\<lambda>c. if 65 \<le> c \<and> c \<le> 90 then c + 32 else c),
       dbContains = (\<lambda>field needle. includesStr field needle),
       prismaFilter = (\<lambda>kvs. Inl ValidationError) \<rparr>"

definition exampleConfig :: config where
  "exampleConfig = \<lparr> adminId = 99, cacheTtl = 3600 \<rparr>"

definition exampleUser :: user where
  "exampleUser =
     \<lparr> user_id = 5, telegramId = 1, username = None, isBlocked = False, isActive = True,
       isPremium = False, preferences = None \<rparr>"

definition adminUser :: user where
  "adminUser = exampleUser\<lparr> user_id := 1, telegramId := 99 \<rparr>"

definition randomCommandCtx :: ctx where
  "randomCommandCtx =
     \<lparr> fromUser = None, botInfo = None, ctxUser = Some exampleUser,
       messageText = Some (S ''/random''), callbackQuery = None, safeReply = True \<rparr>"

definition adminCommandCtx :: ctx where
  "adminCommandCtx = randomCommandCtx\<lparr> ctxUser := Some adminUser, messageText := Some (S ''/admin'') \<rparr>"

definition adminSearchCtx :: ctx where
  "adminSearchCtx = randomCommandCtx\<lparr> ctxUser := Some adminUser, messageText := Some (S ''/search salah'') \<rparr>"





definition emptyWorld :: world where
  "emptyWorld = \<lparr> hadithTable = [], cacheTable = Map.empty, logs = [], apiRequests = [] \<rparr>"

text \<open>Identifiers \<open>id-0\<close>, \<open>id-1\<close>, ... for the elements of one response.\<close>

definition exampleUuids :: "nat \<Rightarrow> jsstring" where
  "exampleUuids i = S ''id-'' @ digitsOf i"

text \<open>An environment whose storage answers every query and whose external API does not
  answer, and a query.\<close>

definition failingEnv :: env where
  "failingEnv =
     \<lparr> clock = 1000, apiResponse = Inl TransportError, uuids = exampleUuids,
       cacheFindError = None, cacheDeleteError = None, cacheUpsertError = None,
       hadithCountError = None, hadithFindError = None \<rparr>"

definition niyyaQuery :: jsval where
  "niyyaQuery = JStr (S ''niyya'')"

text \<open>Two of the seed terms of \<open>getRandom\<close>, both six Arabic letters long.\<close>

definition salah :: jsstring where
  "salah = [1575, 1604, 1589, 1604, 1575, 1577]"

definition zakah :: jsstring where
  "zakah = [1575, 1604, 1586, 1603, 1575, 1577]"

text \<open>A response element with an identifier and a text, the record it normalises to, and
  an environment whose API answers with that element.\<close>

definition prayerRaw :: jsval where
  "prayerRaw = JObj [(S ''id'', JNum 7), (S ''hadith'', JStr (S ''  The  prayer ''))]"

definition prayerHadith :: hadith where
  "prayerHadith =
     \<lparr> hadith_id = S ''id-0'', dorarId = Some (S ''7''), hadith_text = S ''The prayer'',
       arabicText = S ''The prayer'', narrator = [], source = [], book = [],
       hadith_chapter = [], hadithNumber = None, grade = None, topic = None,
       hadith_keywords = [], translation = [], explanation = [], isVerified = False,
       updatedAt = None \<rparr>"

definition prayerEnv :: env where
  "prayerEnv = failingEnv\<lparr> apiResponse := Inr (JArr [prayerRaw]) \<rparr>"

text \<open>An environment whose API answers with no element, and three more like it: one in
  which the cache table cannot be written, one, a second later, in which it cannot be
  read, and one in which the hadith table cannot be counted.\<close>

definition emptyAnswerEnv :: env where
  "emptyAnswerEnv = failingEnv\<lparr> apiResponse := Inr (JArr []) \<rparr>"

definition cacheDownEnv :: env where
  "cacheDownEnv = emptyAnswerEnv\<lparr> cacheUpsertError := Some StorageError \<rparr>"

definition cacheUnreadEnv :: env where
  "cacheUnreadEnv = emptyAnswerEnv\<lparr> clock := 2000, cacheFindError := Some StorageError \<rparr>"


text \<open>An element whose \<open>keywords\<close> is a number: \<open>split\<close> is not a function on it.\<close>

definition badKeywordsRaw :: jsval where
  "badKeywordsRaw = JObj [(S ''text'', JStr (S ''x'')), (S ''keywords'', JNum 7)]"

text \<open>A second normalisation of the same external record, with a new identifier and other
  field values.\<close>

definition revisedPrayer :: hadith where
  "revisedPrayer =
     prayerHadith\<lparr> hadith_id := S ''id-1'', hadith_text := S ''The prayer, revised'',
                    narrator := S ''Umar'' \<rparr>"






text \<open>A blocked user, their update, and two environments of the gate: one in which every
  outside call succeeds and one in which the reply cannot be sent.\<close>

definition blockedUser :: user where
  "blockedUser = exampleUser\<lparr> isBlocked := True \<rparr>"

definition blockedCtx :: ctx where
  "blockedCtx =
     \<lparr> fromUser = Some \<lparr> tg_id = 1, is_bot = False, tg_username = None \<rparr>, botInfo = Some 1000,
       ctxUser = None, messageText = Some (S ''/start''), callbackQuery = None,
       safeReply = False \<rparr>"

definition quietAuthEnv :: authEnv where
  "quietAuthEnv =
     \<lparr> findOrCreateResult = Inr (Some blockedUser), replyError = None, reactivateError = None,
       preferencesError = None, nextError = None, secondNextError = None \<rparr>"

definition replyFailsAuthEnv :: authEnv where
  "replyFailsAuthEnv = quietAuthEnv\<lparr> replyError := Some TransportError \<rparr>"


section \<open>Rate limiter: the keys of the store\<close>










section \<open>Rate limiter: the sliding window and the block\<close>
















section \<open>Rate limiter: the administrator's multiplier\<close>

text \<open>Only the administrator is assigned the admin category.\<close>

lemma determineRateLimit_admin_only:
  assumes "determineRateLimit B cfg c = Inr (Some (Admin, limit, window))"
  shows "isAdminCtx cfg c"
  using assms
  by (auto simp: determineRateLimit_def afterCommand_def callbackRateLimit_def Let_def
      split: if_splits option.splits)

text \<open>
  C8 (as amended). Whatever category \<open>determineRateLimit\<close> assigns, the limit is the
  category's base limit times the multiplier: 5 for the administrator in the search,
  random, favorite, generic command and generic callback categories, and 1 otherwise. The
  admin category, which only the administrator reaches, keeps its configured limit
  without the multiplier.
\<close>

theorem C8_admin_multiplier:
  assumes "determineRateLimit B cfg c = Inr (Some (operation, limit, window))"
  shows "limit = (if isAdminCtx cfg c \<and> operation \<noteq> Admin then 5 else 1) * baseLimit operation"
  using assms
  by (auto simp: determineRateLimit_def afterCommand_def callbackRateLimit_def rateLimits_def
      baseLimit_def Let_def split: if_splits option.splits)

theorem C8_admin_multiplier_witness:
  "isAdminCtx exampleConfig adminSearchCtx \<and>
   determineRateLimit asciiBuiltins exampleConfig adminSearchCtx = Inr (Some (Search, 150, 60000)) \<and>
   (150 :: int) = 5 * baseLimit Search"
proof -
  have drl: "determineRateLimit asciiBuiltins exampleConfig adminSearchCtx =
               Inr (Some (Search, 150, 60000))"
    by (simp add: determineRateLimit_def adminSearchCtx_def randomCommandCtx_def adminUser_def
        exampleUser_def exampleConfig_def isAdminCtx_def isCommandText_def startsWith_def
        asciiBuiltins_def rateLimits_def)
  have adm: "isAdminCtx exampleConfig adminSearchCtx"
    by (simp add: isAdminCtx_def adminSearchCtx_def randomCommandCtx_def adminUser_def
        exampleUser_def exampleConfig_def)
  show ?thesis
    using C8_admin_multiplier [OF drl] adm drl by simp
qed

text \<open>
  The claim as stated fails in the admin category: for the administrator's \<open>/admin\<close>
  command the limit is the configured 100, not 5 times 100.
\<close>

theorem C8_admin_category_counterexample:
  "isAdminCtx exampleConfig adminCommandCtx \<and>
   determineRateLimit asciiBuiltins exampleConfig adminCommandCtx = Inr (Some (Admin, 100, 60000)) \<and>
   baseLimit Admin = 100 \<and>
   (100 :: int) \<noteq> 5 * baseLimit Admin"
  by (simp add: determineRateLimit_def adminCommandCtx_def randomCommandCtx_def adminUser_def
      exampleUser_def exampleConfig_def isAdminCtx_def isCommandText_def startsWith_def
      asciiBuiltins_def rateLimits_def baseLimit_def)

section \<open>Search: what a call leaves untouched\<close>

lemma addLog_fields [simp]:
  "hadithTable (addLog x w) = hadithTable w"
  "cacheTable (addLog x w) = cacheTable w"
  "apiRequests (addLog x w) = apiRequests w"
  "logs (addLog x w) = logs w @ [x]"
  by (simp_all add: addLog_def)

lemma saveHadithToDatabase_frame:
  assumes "saveHadithToDatabase h now w = (r, w')"
  shows "cacheTable w' = cacheTable w \<and> apiRequests w' = apiRequests w"
  using assms by (auto simp: saveHadithToDatabase_def split: sum.splits prod.splits)

lemma normalizeHadithData_frame:
  assumes "normalizeHadithData B u now raw w = (r, w')"
  shows "cacheTable w' = cacheTable w \<and> apiRequests w' = apiRequests w"
  using assms
  by (auto simp: normalizeHadithData_def split: sum.splits prod.splits option.splits if_splits
      dest!: saveHadithToDatabase_frame)

lemma processElements_frame:
  assumes "processElements B gen now i xs acc w = (r, w')"
  shows "cacheTable w' = cacheTable w \<and> apiRequests w' = apiRequests w"
  using assms
proof (induction xs arbitrary: i acc w)
  case Nil
  then show ?case by simp
next
  case (Cons raw rest)
  obtain r1 w1 where n: "normalizeHadithData B (gen i) now raw w = (r1, w1)"
    by (cases "normalizeHadithData B (gen i) now raw w")
  have f: "cacheTable w1 = cacheTable w \<and> apiRequests w1 = apiRequests w"
    by (rule normalizeHadithData_frame [OF n])
  show ?case
    using Cons.prems n f
    by (auto split: sum.splits option.splits if_splits dest!: Cons.IH)
qed

lemma processSearchResponse_frame:
  assumes "processSearchResponse B gen now data w = (r, w')"
  shows "cacheTable w' = cacheTable w \<and> apiRequests w' = apiRequests w"
  using assms
  by (auto simp: processSearchResponse_def split: jsval.splits prod.splits sum.splits
      dest!: processElements_frame)

lemma search_invalid:
  assumes "invalidQuery query"
  shows "search B cfg e query options w =
           (Inr [], addLog (LogError ValidationError ''hadith_search'') w)"
  using assms by (simp add: search_def searchTry_def)

lemma search_hit:
  assumes "\<not> invalidQuery query"
    and "generateCacheKey (S ''search'') [JStr (trimmedQueryOf query), optionsOrDefault options] =
           Inr cacheKey"
    and "cacheFindError e = None"
    and "cacheTable w cacheKey = Some row"
    and "\<not> expiresAt row < clock e"
  shows "search B cfg e query options w =
           (Inr (cacheData row),
            addLog (LogCache ''hit'' cacheKey) (addLog (LogCache ''hit'' cacheKey) w))"
  using assms
  by (simp add: search_def searchTry_def getFromCache_def cacheGet_def cacheGetTry_def Let_def)

lemma search_miss_ok:
  assumes valid: "\<not> invalidQuery query"
    and key: "generateCacheKey (S ''search'') [JStr (trimmedQueryOf query), optionsOrDefault options] =
           Inr cacheKey"
    and miss: "getFromCache e cacheKey w = (None, w1)"
    and ok: "apiResponse e = Inr responseData"
    and proc: "processSearchResponse B (uuids e) (clock e) responseData
                 (w1\<lparr> apiRequests := apiRequests w1 @ [(trimmedQueryOf query, optionsOrDefault options)] \<rparr>)
               = (hadiths, w3)"
  shows "search B cfg e query options w =
           (Inr hadiths,
            addLog (LogInfo ''Hadith search completed'') (setCache cfg e cacheKey hadiths w3))"
  using assms
  by (simp add: search_def searchTry_def Let_def)

lemma search_miss_failed:
  assumes valid: "\<not> invalidQuery query"
    and key: "generateCacheKey (S ''search'') [JStr (trimmedQueryOf query), optionsOrDefault options] =
           Inr cacheKey"
    and miss: "getFromCache e cacheKey w = (None, w1)"
    and failed: "apiResponse e = Inl err"
  shows "search B cfg e query options w =
           (Inr [],
            addLog (LogError err ''hadith_search'')
              (w1\<lparr> apiRequests := apiRequests w1 @ [(trimmedQueryOf query, optionsOrDefault options)] \<rparr>))"
  using assms
  by (simp add: search_def searchTry_def Let_def)

lemma getFromCache_miss_frame:
  assumes "getFromCache e key w = (None, w1)"
  shows "apiRequests w1 = apiRequests w \<and> hadithTable w1 = hadithTable w"
  using assms
  by (auto simp: getFromCache_def cacheGet_def cacheGetTry_def split: option.splits if_splits)

lemma setCache_stored:
  assumes "cacheUpsertError e = None"
  shows "setCache cfg e key hadiths w =
           w\<lparr> cacheTable := (cacheTable w)(key \<mapsto>
                 \<lparr> cacheData = hadiths, expiresAt = clock e + cacheTtl cfg * 1000 \<rparr>) \<rparr>"
  using assms by (simp add: setCache_def cacheSet_def cacheSetTry_def)

lemma setCache_failed:
  assumes "cacheUpsertError e = Some err"
  shows "setCache cfg e key hadiths w = addLog (LogError err ''cache_set'') w"
  using assms by (simp add: setCache_def cacheSet_def cacheSetTry_def)

section \<open>Search: one request for two calls\<close>

text \<open>
  C1 (as amended). For a query that is a string and not empty after trimming, with
  options whose conversion to a string succeeds (every plain object, the default \<open>{}\<close>
  included), whose cache lookup misses, whose external request is answered and whose
  result the cache table accepts: the first call sends exactly one request, normalises
  the response, stores the list under the key
  \<open>generateCacheKey('search', trimmedQuery, options)\<close> with expiry \<open>now + cacheTtl * 1000\<close>
  and returns it; a second call with the same query and options at a time not after that
  expiry, whose read of the cache table is answered, returns the stored list and sends no
  request and saves nothing.
\<close>

theorem C1_search_cached_once:
  assumes valid: "\<not> invalidQuery query"
    and key: "generateCacheKey (S ''search'') [JStr (trimmedQueryOf query), optionsOrDefault options] =
                Inr cacheKey"
    and miss: "fst (getFromCache e1 cacheKey w) = None"
    and ok: "apiResponse e1 = Inr responseData"
    and written: "cacheUpsertError e1 = None"
    and answered: "cacheFindError e2 = None"
    and ttl: "clock e2 \<le> clock e1 + cacheTtl cfg * 1000"
  shows "let (r1, w1) = search B cfg e1 query options w;
             (r2, w2) = search B cfg e2 query options w1;
             request = (trimmedQueryOf query, optionsOrDefault options);
             wm = (snd (getFromCache e1 cacheKey w))\<lparr> apiRequests := apiRequests w @ [request] \<rparr>;
             hadiths = fst (processSearchResponse B (uuids e1) (clock e1) responseData wm)
         in r1 = Inr hadiths \<and>
            apiRequests w1 = apiRequests w @ [request] \<and>
            cacheTable w1 cacheKey =
              Some \<lparr> cacheData = hadiths, expiresAt = clock e1 + cacheTtl cfg * 1000 \<rparr> \<and>
            r2 = Inr hadiths \<and>
            apiRequests w2 = apiRequests w @ [request] \<and>
            hadithTable w2 = hadithTable w1"
proof -
  let ?request = "(trimmedQueryOf query, optionsOrDefault options)"
  obtain w1m where miss': "getFromCache e1 cacheKey w = (None, w1m)"
    using miss by (cases "getFromCache e1 cacheKey w") simp
  have fm: "apiRequests w1m = apiRequests w"
    using getFromCache_miss_frame [OF miss'] by simp
  let ?wm = "w1m\<lparr> apiRequests := apiRequests w @ [?request] \<rparr>"
  obtain hadiths w3 where
    proc: "processSearchResponse B (uuids e1) (clock e1) responseData ?wm = (hadiths, w3)"
    by (cases "processSearchResponse B (uuids e1) (clock e1) responseData ?wm")
  let ?W1 = "addLog (LogInfo ''Hadith search completed'')
               (setCache cfg e1 cacheKey hadiths w3)"
  have s1: "search B cfg e1 query options w = (Inr hadiths, ?W1)"
    using search_miss_ok [OF valid key miss' ok, of B hadiths w3 cfg] proc fm by simp
  have f3: "apiRequests w3 = apiRequests w @ [?request]"
    using processSearchResponse_frame [OF proc] by simp
  have row: "cacheTable ?W1 cacheKey =
               Some \<lparr> cacheData = hadiths, expiresAt = clock e1 + cacheTtl cfg * 1000 \<rparr>"
    by (simp add: setCache_stored [OF written])
  have fresh: "\<not> expiresAt \<lparr> cacheData = hadiths, expiresAt = clock e1 + cacheTtl cfg * 1000 \<rparr>
                  < clock e2"
    using ttl by simp
  have s2: "search B cfg e2 query options ?W1 =
              (Inr hadiths,
               addLog (LogCache ''hit'' cacheKey) (addLog (LogCache ''hit'' cacheKey) ?W1))"
    using search_hit [OF valid key answered row fresh] by simp
  have r1: "apiRequests ?W1 = apiRequests w @ [?request]"
    using f3 by (simp add: setCache_stored [OF written])
  show ?thesis
    using s1 s2 row r1 proc miss' by (simp add: Let_def)
qed

theorem C1_search_cached_once_witness:
  "(let q = JStr (S '' niyya '');
        (r1, w1) = search asciiBuiltins exampleConfig emptyAnswerEnv q JUndefined emptyWorld;
        (r2, w2) = search asciiBuiltins exampleConfig (failingEnv\<lparr> clock := 3601000 \<rparr>) q
                     JUndefined w1
    in r1 = Inr [] \<and> r2 = Inr [] \<and> apiRequests w2 = [(S ''niyya'', JObj [])])"
proof -
  let ?q = "JStr (S '' niyya '')"
  let ?e1 = "emptyAnswerEnv"
  let ?e2 = "failingEnv\<lparr> clock := 3601000 \<rparr>"
  let ?key = "S ''hadith_api:search:niyya:_object_Object_''"
  have valid: "\<not> invalidQuery ?q"
    by (simp add: invalidQuery_def trim_def isWhiteSpace_def)
  have tq: "trimmedQueryOf ?q = S ''niyya''"
    by (simp add: trimmedQueryOf_def trim_def isWhiteSpace_def)
  have key: "generateCacheKey (S ''search'') [JStr (trimmedQueryOf ?q), optionsOrDefault JUndefined] =
               Inr ?key"
    unfolding tq by (simp add: generateCacheKey_def joinValues_def optionsOrDefault_def isKeyChar_def)
  have miss: "fst (getFromCache ?e1 ?key emptyWorld) = None"
    by (simp add: getFromCache_def cacheGet_def cacheGetTry_def emptyWorld_def emptyAnswerEnv_def
        failingEnv_def)
  have ok: "apiResponse ?e1 = Inr (JArr [])"
    by (simp add: emptyAnswerEnv_def)
  have written: "cacheUpsertError ?e1 = None"
    by (simp add: emptyAnswerEnv_def failingEnv_def)
  have answered: "cacheFindError ?e2 = None"
    by (simp add: failingEnv_def)
  have ttl: "clock ?e2 \<le> clock ?e1 + cacheTtl exampleConfig * 1000"
    by (simp add: exampleConfig_def emptyAnswerEnv_def failingEnv_def)
  have p: "processSearchResponse asciiBuiltins gen now (JArr []) wm = ([], wm)" for gen now wm
    by (simp add: processSearchResponse_def)
  show ?thesis
    using C1_search_cached_once [OF valid key miss ok written answered ttl, of asciiBuiltins]
    unfolding tq
    by (simp add: Let_def split_beta p optionsOrDefault_def emptyWorld_def)
qed

text \<open>
  The claim as stated fails when the external request fails: nothing is cached, both
  calls return the empty list, and the second call sends a second request. It fails in
  the same way when the request is answered and the cache table cannot be written, and
  when the entry is written and the second call cannot read the cache table. It also
  fails for options that cannot be converted to a string (an object with an own property
  \<open>toString\<close>): building the key throws and no request is sent at all.
\<close>

theorem C1_failed_request_counterexample:
  "\<not> invalidQuery niyyaQuery \<and> 2 \<le> length (trimmedQueryOf niyyaQuery) \<and>
   cacheTable emptyWorld (S ''hadith_api:search:niyya:_object_Object_'') = None \<and>
   (let (r1, w1) = search asciiBuiltins exampleConfig failingEnv niyyaQuery JUndefined emptyWorld;
        (r2, w2) = search asciiBuiltins exampleConfig (failingEnv\<lparr> clock := 2000 \<rparr>)
                     niyyaQuery JUndefined w1
    in r1 = Inr [] \<and> r2 = Inr [] \<and>
       apiRequests w2 = [(S ''niyya'', JObj []), (S ''niyya'', JObj [])]) \<and>
   (let (r1, w1) = search asciiBuiltins exampleConfig cacheDownEnv niyyaQuery JUndefined emptyWorld;
        (r2, w2) = search asciiBuiltins exampleConfig (cacheDownEnv\<lparr> clock := 2000 \<rparr>)
                     niyyaQuery JUndefined w1
    in r1 = Inr [] \<and> r2 = Inr [] \<and>
       apiRequests w2 = [(S ''niyya'', JObj []), (S ''niyya'', JObj [])]) \<and>
   (let (r1, w1) = search asciiBuiltins exampleConfig emptyAnswerEnv niyyaQuery JUndefined emptyWorld;
        (r2, w2) = search asciiBuiltins exampleConfig cacheUnreadEnv niyyaQuery JUndefined w1
    in r1 = Inr [] \<and> r2 = Inr [] \<and>
       apiRequests w2 = [(S ''niyya'', JObj []), (S ''niyya'', JObj [])]) \<and>
   search asciiBuiltins exampleConfig prayerEnv niyyaQuery (JObj [(S ''toString'', JNum 1)])
       emptyWorld =
     (Inr [], addLog (LogError TypeError ''hadith_search'') emptyWorld)"
  by (simp add: search_def searchTry_def invalidQuery_def trimmedQueryOf_def trim_def
      isWhiteSpace_def generateCacheKey_def joinValues_def optionsOrDefault_def isKeyChar_def
      getFromCache_def cacheGet_def cacheGetTry_def setCache_def cacheSet_def cacheSetTry_def
      processSearchResponse_def emptyWorld_def failingEnv_def cacheDownEnv_def cacheUnreadEnv_def
      emptyAnswerEnv_def niyyaQuery_def addLog_def Let_def)

section \<open>Cache keys are shared between queries\<close>

lemma nonKey_map:
  assumes "\<forall>c\<in>set q. \<not> isKeyChar c"
  shows "map (\<lambda>c. if isKeyChar c then c else 95) q = replicate (length q) 95"
  using assms by (induction q) auto

lemma generateCacheKey_collide:
  assumes len: "length q1 = length q2"
    and n1: "\<forall>c\<in>set q1. \<not> isKeyChar c"
    and n2: "\<forall>c\<in>set q2. \<not> isKeyChar c"
  shows "generateCacheKey operation [JStr q1, options] = generateCacheKey operation [JStr q2, options]"
  using nonKey_map [OF n1] nonKey_map [OF n2] len
  by (simp add: generateCacheKey_def joinValues_def Let_def split: sum.splits)

lemma generateCacheKey_exact:
  assumes "joinValues (S '':'') params = Inr joined"
  shows "generateCacheKey operation params =
           Inr (take 250 (map (\<lambda>c. if isKeyChar c then c else 95)
                            (S ''hadith_api:'' @ operation @ S '':'' @ joined)))"
  using assms by (simp add: generateCacheKey_def)

lemma isKeyChar_set:
  "isKeyChar c \<longleftrightarrow> c \<in> {97..122} \<union> {65..90} \<union> {48..57} \<union> {58, 95, 45}"
  by (auto simp: isKeyChar_def)

lemma sanitized_key:
  fixes raw :: jsstring
  defines "key \<equiv> take 250 (map (\<lambda>c. if isKeyChar c then c else 95) raw)"
  shows "length key = min 250 (length raw)"
    and "\<forall>i<length key.
           key ! i =
             (let c = raw ! i
              in if c \<in> {97..122} \<union> {65..90} \<union> {48..57} \<union> {58, 95, 45} then c else 95)"
proof -
  show "length key = min 250 (length raw)"
    by (simp add: key_def min.commute)
  show "\<forall>i<length key.
           key ! i =
             (let c = raw ! i
              in if c \<in> {97..122} \<union> {65..90} \<union> {48..57} \<union> {58, 95, 45} then c else 95)"
  proof (intro allI impI)
    fix i assume "i < length key"
    then have "key ! i = (if isKeyChar (raw ! i) then raw ! i else 95)"
      by (simp add: key_def)
    then show "key ! i =
             (let c = raw ! i
              in if c \<in> {97..122} \<union> {65..90} \<union> {48..57} \<union> {58, 95, 45} then c else 95)"
      unfolding Let_def by (simp only: isKeyChar_set)
  qed
qed

lemma search_shared_key:
  assumes v1: "\<not> invalidQuery query1"
    and v2: "\<not> invalidQuery query2"
    and k1: "generateCacheKey (S ''search'') [JStr (trimmedQueryOf query1), optionsOrDefault options] =
                Inr cacheKey"
    and k2: "generateCacheKey (S ''search'') [JStr (trimmedQueryOf query2), optionsOrDefault options] =
                Inr cacheKey"
    and miss: "fst (getFromCache e1 cacheKey w) = None"
    and ok: "apiResponse e1 = Inr responseData"
    and written: "cacheUpsertError e1 = None"
    and answered: "cacheFindError e2 = None"
    and ttl: "clock e2 \<le> clock e1 + cacheTtl cfg * 1000"
  shows "fst (search B cfg e2 query2 options (snd (search B cfg e1 query1 options w))) =
           fst (search B cfg e1 query1 options w) \<and>
         apiRequests (snd (search B cfg e2 query2 options (snd (search B cfg e1 query1 options w)))) =
           apiRequests (snd (search B cfg e1 query1 options w))"
proof -
  let ?request = "(trimmedQueryOf query1, optionsOrDefault options)"
  obtain w1m where miss': "getFromCache e1 cacheKey w = (None, w1m)"
    using miss by (cases "getFromCache e1 cacheKey w") simp
  let ?wm = "w1m\<lparr> apiRequests := apiRequests w1m @ [?request] \<rparr>"
  obtain hadiths w3 where
    proc: "processSearchResponse B (uuids e1) (clock e1) responseData ?wm = (hadiths, w3)"
    by (cases "processSearchResponse B (uuids e1) (clock e1) responseData ?wm")
  let ?W1 = "addLog (LogInfo ''Hadith search completed'')
               (setCache cfg e1 cacheKey hadiths w3)"
  have s1: "search B cfg e1 query1 options w = (Inr hadiths, ?W1)"
    by (rule search_miss_ok [OF v1 k1 miss' ok proc])
  have row: "cacheTable ?W1 cacheKey =
               Some \<lparr> cacheData = hadiths, expiresAt = clock e1 + cacheTtl cfg * 1000 \<rparr>"
    by (simp add: setCache_stored [OF written])
  have fresh: "\<not> expiresAt \<lparr> cacheData = hadiths, expiresAt = clock e1 + cacheTtl cfg * 1000 \<rparr>
                  < clock e2"
    using ttl by simp
  have s2: "search B cfg e2 query2 options ?W1 =
              (Inr hadiths,
               addLog (LogCache ''hit'' cacheKey) (addLog (LogCache ''hit'' cacheKey) ?W1))"
    using search_hit [OF v2 k2 answered row fresh] by simp
  show ?thesis
    by (simp add: s1 s2)
qed

lemma buildPrayer:
  "buildHadithData asciiBuiltins (S ''id-0'') prayerRaw =
     Inr prayerHadith"
  by (simp add: buildHadithData_def prayerRaw_def prayerHadith_def optToString_def hadithNumberOf_def
      extractKeywords_def keywordArray_def orElse_def orNull_def cleanText_def cleanArabicText_def
      normalizeGrade_def extractTopic_def isTopicField_def isVerifiedSource_def
      numberToString_def digitsOf.simps trim_def isWhiteSpace_def stripZeroWidth_def
      isZeroWidth_def asciiBuiltins_def Let_def)

lemma search_prayer:
  "fst (search asciiBuiltins exampleConfig prayerEnv (JStr salah) JUndefined emptyWorld) =
     Inr [prayerHadith]"
proof -
  have u: "exampleUuids 0 = S ''id-0''"
    by (simp add: exampleUuids_def digitsOf.simps)
  have k1: "generateCacheKey (S ''search'') [JStr (trimmedQueryOf (JStr salah)), optionsOrDefault JUndefined] =
              Inr (S ''hadith_api:search:______:_object_Object_'')"
    by (simp add: generateCacheKey_def joinValues_def optionsOrDefault_def isKeyChar_def
        trimmedQueryOf_def salah_def trim_def isWhiteSpace_def)
  have v: "\<not> invalidQuery (JStr salah)"
    by (simp add: invalidQuery_def salah_def trim_def isWhiteSpace_def)
  show ?thesis
    using v k1 buildPrayer
    by (simp add: search_def searchTry_def getFromCache_def cacheGet_def cacheGetTry_def
        setCache_def cacheSet_def cacheSetTry_def emptyWorld_def
        prayerEnv_def failingEnv_def processSearchResponse_def normalizeHadithData_def u
        saveHadithToDatabase_def saveHadithTry_def orNull_def findUniqueByDorarId_def
        prismaCreate_def Let_def addLog_def prayerHadith_def)
qed

text \<open>
  C10. \<open>generateCacheKey\<close> joins \<open>hadith_api:\<close>, the operation, \<open>:\<close> and the joined
  parameters, writes \<open>_\<close> for every code unit that is not a letter \<open>a\<close> to \<open>z\<close> or \<open>A\<close> to
  \<open>Z\<close>, a digit, \<open>:\<close>, \<open>_\<close> or \<open>-\<close>, keeps every other code unit in its place, and cuts the
  result after 250 code units; for a search with the default options the text so treated
  is \<open>hadith_api:search:\<close>, the query and \<open>:[object Object]\<close>. So the function is not
  injective on queries. There are two distinct trimmed queries with the same search cache
  key; two queries of equal length none of whose code units is kept (two Arabic words of
  equal length) always share their key; and whenever two valid queries share a key, a
  search for the second, made before the entry of the first expires and with the cache
  table answering, returns the list cached for the first without a request of its own.
\<close>

theorem C10_cache_key_collisions:
  "(\<forall>operation params joined.
       joinValues (S '':'') params = Inr joined \<longrightarrow>
       (\<exists>key. generateCacheKey operation params = Inr key \<and>
          length key = min 250 (length (S ''hadith_api:'' @ operation @ S '':'' @ joined)) \<and>
          (\<forall>i<length key.
             key ! i =
               (let c = (S ''hadith_api:'' @ operation @ S '':'' @ joined) ! i
                in if c \<in> {97..122} \<union> {65..90} \<union> {48..57} \<union> {58, 95, 45} then c else 95)))) \<and>
   (\<forall>q. \<exists>key. generateCacheKey (S ''search'') [JStr q, JObj []] = Inr key \<and>
       length key = min 250 (length q + 34) \<and>
       (\<forall>i<length key.
          key ! i =
            (let c = (S ''hadith_api:search:'' @ q @ S '':[object Object]'') ! i
             in if c \<in> {97..122} \<union> {65..90} \<union> {48..57} \<union> {58, 95, 45} then c else 95))) \<and>
   (\<exists>q1 q2. q1 \<noteq> q2 \<and> trim q1 = q1 \<and> trim q2 = q2 \<and>
       \<not> invalidQuery (JStr q1) \<and> \<not> invalidQuery (JStr q2) \<and>
       generateCacheKey (S ''search'') [JStr q1, JObj []] =
         generateCacheKey (S ''search'') [JStr q2, JObj []]) \<and>
   (\<forall>q1 q2 options.
       length q1 = length q2 \<and> (\<forall>c\<in>set q1. \<not> isKeyChar c) \<and> (\<forall>c\<in>set q2. \<not> isKeyChar c) \<longrightarrow>
       generateCacheKey (S ''search'') [JStr q1, options] =
         generateCacheKey (S ''search'') [JStr q2, options]) \<and>
   (\<forall>B cfg e1 e2 query1 query2 options w cacheKey responseData.
       \<not> invalidQuery query1 \<and> \<not> invalidQuery query2 \<and>
       generateCacheKey (S ''search'') [JStr (trimmedQueryOf query1), optionsOrDefault options] =
         Inr cacheKey \<and>
       generateCacheKey (S ''search'') [JStr (trimmedQueryOf query2), optionsOrDefault options] =
         Inr cacheKey \<and>
       fst (getFromCache e1 cacheKey w) = None \<and>
       apiResponse e1 = Inr responseData \<and>
       cacheUpsertError e1 = None \<and>
       cacheFindError e2 = None \<and>
       clock e2 \<le> clock e1 + cacheTtl cfg * 1000 \<longrightarrow>
       fst (search B cfg e2 query2 options (snd (search B cfg e1 query1 options w))) =
         fst (search B cfg e1 query1 options w) \<and>
       apiRequests (snd (search B cfg e2 query2 options (snd (search B cfg e1 query1 options w)))) =
         apiRequests (snd (search B cfg e1 query1 options w)))"
proof (intro conjI)
  show "\<forall>operation params joined.
       joinValues (S '':'') params = Inr joined \<longrightarrow>
       (\<exists>key. generateCacheKey operation params = Inr key \<and>
          length key = min 250 (length (S ''hadith_api:'' @ operation @ S '':'' @ joined)) \<and>
          (\<forall>i<length key.
             key ! i =
               (let c = (S ''hadith_api:'' @ operation @ S '':'' @ joined) ! i
                in if c \<in> {97..122} \<union> {65..90} \<union> {48..57} \<union> {58, 95, 45} then c else 95)))"
  proof (intro allI impI)
    fix operation :: jsstring and params joined
    assume j: "joinValues (S '':'') params = Inr joined"
    let ?raw = "S ''hadith_api:'' @ operation @ S '':'' @ joined"
    let ?key = "take 250 (map (\<lambda>c. if isKeyChar c then c else 95) ?raw)"
    have "generateCacheKey operation params = Inr ?key"
      by (rule generateCacheKey_exact [OF j])
    then show "\<exists>key. generateCacheKey operation params = Inr key \<and>
          length key = min 250 (length ?raw) \<and>
          (\<forall>i<length key.
             key ! i =
               (let c = ?raw ! i
                in if c \<in> {97..122} \<union> {65..90} \<union> {48..57} \<union> {58, 95, 45} then c else 95))"
      using sanitized_key [of ?raw] by (intro exI [of _ ?key] conjI)
  qed
next
  show "\<forall>q. \<exists>key. generateCacheKey (S ''search'') [JStr q, JObj []] = Inr key \<and>
       length key = min 250 (length q + 34) \<and>
       (\<forall>i<length key.
          key ! i =
            (let c = (S ''hadith_api:search:'' @ q @ S '':[object Object]'') ! i
             in if c \<in> {97..122} \<union> {65..90} \<union> {48..57} \<union> {58, 95, 45} then c else 95))"
  proof
    fix q :: jsstring
    let ?raw = "S ''hadith_api:search:'' @ q @ S '':[object Object]''"
    let ?key = "take 250 (map (\<lambda>c. if isKeyChar c then c else 95) ?raw)"
    have j: "joinValues (S '':'') [JStr q, JObj []] = Inr (q @ S '':[object Object]'')"
      by (simp add: joinValues_def)
    have r: "S ''hadith_api:'' @ S ''search'' @ S '':'' @ q @ S '':[object Object]'' = ?raw"
      by simp
    have g: "generateCacheKey (S ''search'') [JStr q, JObj []] = Inr ?key"
      using generateCacheKey_exact [OF j, of "S ''search''"] unfolding r .
    have len: "length ?raw = length q + 34"
      by simp
    have l: "length ?key = min 250 (length q + 34)"
      using sanitized_key(1) [of ?raw] unfolding len .
    show "\<exists>key. generateCacheKey (S ''search'') [JStr q, JObj []] = Inr key \<and>
       length key = min 250 (length q + 34) \<and>
       (\<forall>i<length key.
          key ! i =
            (let c = ?raw ! i
             in if c \<in> {97..122} \<union> {65..90} \<union> {48..57} \<union> {58, 95, 45} then c else 95))"
      using g l sanitized_key(2) [of ?raw] by (intro exI [of _ ?key] conjI)
  qed
next
  have nk1: "\<forall>c\<in>set salah. \<not> isKeyChar c" and nk2: "\<forall>c\<in>set zakah. \<not> isKeyChar c"
    by (simp_all add: salah_def zakah_def isKeyChar_def)
  have "salah \<noteq> zakah"
    by (simp add: salah_def zakah_def)
  moreover have "trim salah = salah" "trim zakah = zakah"
    by (simp_all add: salah_def zakah_def trim_def isWhiteSpace_def)
  moreover have "\<not> invalidQuery (JStr salah)" "\<not> invalidQuery (JStr zakah)"
    by (simp_all add: invalidQuery_def salah_def zakah_def trim_def isWhiteSpace_def)
  moreover have "generateCacheKey (S ''search'') [JStr salah, JObj []] =
                 generateCacheKey (S ''search'') [JStr zakah, JObj []]"
    by (rule generateCacheKey_collide [OF _ nk1 nk2]) (simp add: salah_def zakah_def)
  ultimately show "\<exists>q1 q2. q1 \<noteq> q2 \<and> trim q1 = q1 \<and> trim q2 = q2 \<and>
       \<not> invalidQuery (JStr q1) \<and> \<not> invalidQuery (JStr q2) \<and>
       generateCacheKey (S ''search'') [JStr q1, JObj []] =
         generateCacheKey (S ''search'') [JStr q2, JObj []]"
    by blast
next
  show "\<forall>q1 q2 options.
       length q1 = length q2 \<and> (\<forall>c\<in>set q1. \<not> isKeyChar c) \<and> (\<forall>c\<in>set q2. \<not> isKeyChar c) \<longrightarrow>
       generateCacheKey (S ''search'') [JStr q1, options] =
         generateCacheKey (S ''search'') [JStr q2, options]"
    using generateCacheKey_collide by blast
next
  show "\<forall>B cfg e1 e2 query1 query2 options w cacheKey responseData.
       \<not> invalidQuery query1 \<and> \<not> invalidQuery query2 \<and>
       generateCacheKey (S ''search'') [JStr (trimmedQueryOf query1), optionsOrDefault options] =
         Inr cacheKey \<and>
       generateCacheKey (S ''search'') [JStr (trimmedQueryOf query2), optionsOrDefault options] =
         Inr cacheKey \<and>
       fst (getFromCache e1 cacheKey w) = None \<and>
       apiResponse e1 = Inr responseData \<and>
       cacheUpsertError e1 = None \<and>
       cacheFindError e2 = None \<and>
       clock e2 \<le> clock e1 + cacheTtl cfg * 1000 \<longrightarrow>
       fst (search B cfg e2 query2 options (snd (search B cfg e1 query1 options w))) =
         fst (search B cfg e1 query1 options w) \<and>
       apiRequests (snd (search B cfg e2 query2 options (snd (search B cfg e1 query1 options w)))) =
         apiRequests (snd (search B cfg e1 query1 options w))"
    by (intro allI impI) (elim conjE, rule search_shared_key)
qed

theorem C10_cache_key_collisions_witness:
  "generateCacheKey (S ''search'') [JStr (S ''a b''), JObj []] =
     Inr (S ''hadith_api:search:a_b:_object_Object_'') \<and>
   (\<exists>key. generateCacheKey (S ''search'') [JStr (replicate 300 97), JObj []] = Inr key \<and>
      length key = 250) \<and>
   salah \<noteq> zakah \<and>
   fst (search asciiBuiltins exampleConfig prayerEnv (JStr salah) JUndefined emptyWorld) =
     Inr [prayerHadith] \<and>
   generateCacheKey (S ''search'') [JStr salah, JObj []] =
     generateCacheKey (S ''search'') [JStr zakah, JObj []] \<and>
   fst (search asciiBuiltins exampleConfig (emptyAnswerEnv\<lparr> clock := 2000 \<rparr>)
          (JStr zakah) JUndefined
          (snd (search asciiBuiltins exampleConfig prayerEnv (JStr salah) JUndefined emptyWorld))) =
     fst (search asciiBuiltins exampleConfig prayerEnv (JStr salah) JUndefined emptyWorld) \<and>
   apiRequests (snd (search asciiBuiltins exampleConfig
          (emptyAnswerEnv\<lparr> clock := 2000 \<rparr>) (JStr zakah) JUndefined
          (snd (search asciiBuiltins exampleConfig prayerEnv (JStr salah) JUndefined emptyWorld)))) =
     apiRequests (snd (search asciiBuiltins exampleConfig prayerEnv (JStr salah) JUndefined emptyWorld))"
proof -
  let ?key = "S ''hadith_api:search:______:_object_Object_''"
  let ?e2 = "emptyAnswerEnv\<lparr> clock := 2000 \<rparr>"
  have ne: "salah \<noteq> zakah"
    by (simp add: salah_def zakah_def)
  have nk: "length salah = length zakah \<and> (\<forall>c\<in>set salah. \<not> isKeyChar c) \<and>
            (\<forall>c\<in>set zakah. \<not> isKeyChar c)"
    by (simp add: salah_def zakah_def isKeyChar_def)
  have v: "\<not> invalidQuery (JStr salah)" "\<not> invalidQuery (JStr zakah)"
    by (simp_all add: invalidQuery_def salah_def zakah_def trim_def isWhiteSpace_def)
  have k1: "generateCacheKey (S ''search'') [JStr (trimmedQueryOf (JStr salah)), optionsOrDefault JUndefined] =
              Inr ?key"
    by (simp add: generateCacheKey_def joinValues_def optionsOrDefault_def isKeyChar_def
        trimmedQueryOf_def salah_def trim_def isWhiteSpace_def)
  have k2: "generateCacheKey (S ''search'') [JStr (trimmedQueryOf (JStr zakah)), optionsOrDefault JUndefined] =
              Inr ?key"
    by (simp add: generateCacheKey_def joinValues_def optionsOrDefault_def isKeyChar_def
        trimmedQueryOf_def zakah_def trim_def isWhiteSpace_def)
  have miss: "fst (getFromCache prayerEnv ?key emptyWorld) = None"
    by (simp add: getFromCache_def cacheGet_def cacheGetTry_def emptyWorld_def prayerEnv_def
        failingEnv_def)
  have ok: "apiResponse prayerEnv = Inr (JArr [prayerRaw])"
    by (simp add: prayerEnv_def)
  have st: "cacheUpsertError prayerEnv = None" "cacheFindError ?e2 = None"
    by (simp_all add: prayerEnv_def emptyAnswerEnv_def failingEnv_def)
  have ttl: "clock ?e2 \<le> clock prayerEnv + cacheTtl exampleConfig * 1000"
    by (simp add: prayerEnv_def emptyAnswerEnv_def failingEnv_def exampleConfig_def)
  note th = C10_cache_key_collisions
  have concrete: "generateCacheKey (S ''search'') [JStr (S ''a b''), JObj []] =
                    Inr (S ''hadith_api:search:a_b:_object_Object_'')"
    by (simp add: generateCacheKey_def joinValues_def isKeyChar_def)
  have long: "\<exists>key. generateCacheKey (S ''search'') [JStr (replicate 300 97), JObj []] = Inr key \<and>
                length key = 250"
    using th [THEN conjunct2, THEN conjunct1, rule_format, of "replicate 300 97"] by auto
  have a: "generateCacheKey (S ''search'') [JStr salah, JObj []] =
             generateCacheKey (S ''search'') [JStr zakah, JObj []]"
    using th [THEN conjunct2, THEN conjunct2, THEN conjunct2, THEN conjunct1, rule_format,
        of salah zakah "JObj []"] nk by blast
  have b: "fst (search asciiBuiltins exampleConfig ?e2 (JStr zakah) JUndefined
          (snd (search asciiBuiltins exampleConfig prayerEnv (JStr salah) JUndefined emptyWorld))) =
     fst (search asciiBuiltins exampleConfig prayerEnv (JStr salah) JUndefined emptyWorld) \<and>
   apiRequests (snd (search asciiBuiltins exampleConfig ?e2 (JStr zakah) JUndefined
          (snd (search asciiBuiltins exampleConfig prayerEnv (JStr salah) JUndefined emptyWorld)))) =
     apiRequests (snd (search asciiBuiltins exampleConfig prayerEnv (JStr salah) JUndefined emptyWorld))"
    by (rule th [THEN conjunct2, THEN conjunct2, THEN conjunct2, THEN conjunct2, rule_format])
      (use v k1 k2 miss ok st ttl in blast)
  show ?thesis
    using concrete long ne a b search_prayer by blast
qed

section \<open>Search: an invalid query\<close>

text \<open>
  C4 (as amended). For every query that is not a string or is empty after trimming,
  \<open>search\<close> does not fail toward its caller: it logs the validation error and returns the
  empty list, and it sends no request to the external API (the table, the cache and the
  list of requests are as before).
\<close>

theorem C4_invalid_query_empty_result:
  assumes "invalidQuery query"
  shows "search B cfg e query options w =
           (Inr [], addLog (LogError ValidationError ''hadith_search'') w)"
  using assms by (simp add: search_def searchTry_def)

theorem C4_invalid_query_empty_result_witness:
  "invalidQuery (JNum 5) \<and>
   search asciiBuiltins exampleConfig prayerEnv (JNum 5) JUndefined emptyWorld =
     (Inr [], addLog (LogError ValidationError ''hadith_search'') emptyWorld) \<and>
   apiRequests (addLog (LogError ValidationError ''hadith_search'') emptyWorld) = []"
proof -
  have i: "invalidQuery (JNum 5)"
    by (simp add: invalidQuery_def)
  show ?thesis
    using C4_invalid_query_empty_result [OF i, of asciiBuiltins exampleConfig prayerEnv JUndefined emptyWorld] i
    by (simp add: emptyWorld_def addLog_def)
qed

text \<open>The claim as stated fails: for a query of three spaces the caller receives the
  empty list, not the validation error.\<close>

theorem C4_no_failure_counterexample:
  "invalidQuery (JStr (S ''   '')) \<and>
   fst (search asciiBuiltins exampleConfig prayerEnv (JStr (S ''   '')) JUndefined emptyWorld) = Inr [] \<and>
   fst (search asciiBuiltins exampleConfig prayerEnv (JStr (S ''   '')) JUndefined emptyWorld) \<noteq>
     Inl ValidationError"
  by (simp add: search_def searchTry_def invalidQuery_def trim_def isWhiteSpace_def)

section \<open>Normalising a response\<close>

lemmas build_simps =
  buildHadithData_def optToString_def hadithNumberOf_def
  extractKeywords_def keywordArray_def orElse_def orNull_def cleanText_def cleanArabicText_def
  normalizeGrade_def extractTopic_def isTopicField_def isVerifiedSource_def
  numberToString_def digitsOf.simps trim_def isWhiteSpace_def stripZeroWidth_def
  isZeroWidth_def asciiBuiltins_def Let_def

lemma joinResults_Inl:
  "joinResults sep rs = Inl e \<Longrightarrow> Inl e \<in> set rs"
  by (induction sep rs rule: joinResults.induct) (auto split: sum.splits)

lemma jsToString_TypeError:
  "jsToString v = Inl e \<Longrightarrow> e = TypeError"
proof (induction v arbitrary: e rule: jsToString.induct)
  case (6 xs)
  from "6.prems" have "Inl e \<in> set (map (\<lambda>x. if nullish x then Inr [] else jsToString x) xs)"
    by (auto dest: joinResults_Inl)
  then obtain x where "x \<in> set xs" "\<not> nullish x" "jsToString x = Inl e"
    by (auto split: if_splits)
  then show ?case using "6.IH" by blast
qed (auto split: if_splits)

lemma optToString_TypeError:
  "optToString v = Inl e \<Longrightarrow> e = TypeError"
  by (auto simp: optToString_def split: if_splits sum.splits dest: jsToString_TypeError)

lemma buildHadithData_TypeError:
  "buildHadithData B u raw = Inl e \<Longrightarrow> e = TypeError"
  by (auto simp: buildHadithData_def hadithNumberOf_def extractKeywords_def keywordArray_def
      Let_def
      split: if_splits sum.splits option.splits jsval.splits dest: optToString_TypeError)

lemma buildHadithData_uuid:
  "buildHadithData B u raw =
     (case buildHadithData B [] raw of Inl e \<Rightarrow> Inl e | Inr h \<Rightarrow> Inr (h\<lparr> hadith_id := u \<rparr>))"
  by (simp add: buildHadithData_def split: sum.splits)


lemma saveHadithToDatabase_logs:
  assumes "saveHadithToDatabase h now w = (r, w')"
  shows "filter (\<lambda>x. \<not> isSaveLog x) (logs w') = filter (\<lambda>x. \<not> isSaveLog x) (logs w)"
  using assms
  by (auto simp: saveHadithToDatabase_def isSaveLog_def split: sum.splits prod.splits)

lemma normalizeHadithData_throws:
  assumes "normalizationThrows B raw" and "raw \<noteq> JUndefined"
  shows "normalizeHadithData B u now raw w =
           (Inr None, addLog (LogError TypeError ''normalize_hadith_data'') w)"
proof -
  obtain e where e: "buildHadithData B [] raw = Inl e"
    using assms(1) by (auto simp: normalizationThrows_def split: sum.splits)
  then have "e = TypeError"
    by (rule buildHadithData_TypeError)
  with e have "buildHadithData B u raw = Inl TypeError"
    by (simp add: buildHadithData_uuid [of B u raw])
  then show ?thesis
    using assms(2) by (simp add: normalizeHadithData_def)
qed

lemma normalizeHadithData_lacksText:
  assumes "lacksText B raw"
  shows "normalizeHadithData B u now raw w = (Inr None, w)"
proof -
  obtain h where h: "buildHadithData B [] raw = Inr h" "hadith_text h = []" "arabicText h = []"
    using assms by (auto simp: lacksText_def split: sum.splits)
  then have "buildHadithData B u raw = Inr (h\<lparr> hadith_id := u \<rparr>)"
    by (simp add: buildHadithData_uuid [of B u raw])
  then show ?thesis
    using h by (simp add: normalizeHadithData_def)
qed

lemma normalizeHadithData_record:
  assumes "\<not> yieldsNoRecord B raw"
  shows "\<exists>h w'. normalizeHadithData B u now raw w = (Inr (Some h), w') \<and>
           filter (\<lambda>x. \<not> isSaveLog x) (logs w') = filter (\<lambda>x. \<not> isSaveLog x) (logs w)"
proof -
  obtain h where h: "buildHadithData B [] raw = Inr h" "hadith_text h \<noteq> [] \<or> arabicText h \<noteq> []"
    using assms
    by (auto simp: yieldsNoRecord_def lacksText_def normalizationThrows_def split: sum.splits)
  let ?h = "h\<lparr> hadith_id := u \<rparr>"
  have b: "buildHadithData B u raw = Inr ?h"
    using h by (simp add: buildHadithData_uuid [of B u raw])
  obtain r w' where s: "saveHadithToDatabase ?h now w = (r, w')"
    by (cases "saveHadithToDatabase ?h now w")
  have "normalizeHadithData B u now raw w = (Inr (Some (case r of Some x \<Rightarrow> x | None \<Rightarrow> ?h)), w')"
    using b h s by (auto simp: normalizeHadithData_def split: option.splits)
  then show ?thesis
    using saveHadithToDatabase_logs [OF s] by blast
qed

lemma processElements_count:
  assumes "JUndefined \<notin> set xs"
  shows "\<exists>hs w'. processElements B gen now i xs acc w = (Inr hs, w') \<and>
           length hs = length acc + (length xs - length (filter (yieldsNoRecord B) xs)) \<and>
           filter (\<lambda>x. \<not> isSaveLog x) (logs w') =
             filter (\<lambda>x. \<not> isSaveLog x) (logs w) @
             replicate (length (filter (normalizationThrows B) xs))
               (LogError TypeError ''normalize_hadith_data'')"
  using assms
proof (induction xs arbitrary: i acc w)
  case Nil
  then show ?case by simp
next
  case (Cons raw rest)
  have u: "raw \<noteq> JUndefined" and rest: "JUndefined \<notin> set rest"
    using Cons.prems by auto
  have le: "length (filter (yieldsNoRecord B) rest) \<le> length rest"
    by simp
  consider (throws) "normalizationThrows B raw"
    | (lacks) "lacksText B raw" "\<not> normalizationThrows B raw"
    | (yields) "\<not> yieldsNoRecord B raw"
    by (auto simp: yieldsNoRecord_def)
  then show ?case
  proof cases
    case throws
    let ?w1 = "addLog (LogError TypeError ''normalize_hadith_data'') w"
    have n: "normalizeHadithData B (gen i) now raw w = (Inr None, ?w1)"
      by (rule normalizeHadithData_throws [OF throws u])
    from Cons.IH [OF rest, of "Suc i" acc ?w1] obtain hs w' where
      ih: "processElements B gen now (Suc i) rest acc ?w1 = (Inr hs, w')"
          "length hs = length acc + (length rest - length (filter (yieldsNoRecord B) rest))"
          "filter (\<lambda>x. \<not> isSaveLog x) (logs w') =
             filter (\<lambda>x. \<not> isSaveLog x) (logs ?w1) @
             replicate (length (filter (normalizationThrows B) rest))
               (LogError TypeError ''normalize_hadith_data'')"
      by blast
    have y: "yieldsNoRecord B raw"
      using throws by (simp add: yieldsNoRecord_def)
    show ?thesis
      using n ih throws y le
      by (simp add: isSaveLog_def replicate_app_Cons_same)
  next
    case lacks
    have n: "normalizeHadithData B (gen i) now raw w = (Inr None, w)"
      by (rule normalizeHadithData_lacksText [OF lacks(1)])
    from Cons.IH [OF rest, of "Suc i" acc w] obtain hs w' where
      ih: "processElements B gen now (Suc i) rest acc w = (Inr hs, w')"
          "length hs = length acc + (length rest - length (filter (yieldsNoRecord B) rest))"
          "filter (\<lambda>x. \<not> isSaveLog x) (logs w') =
             filter (\<lambda>x. \<not> isSaveLog x) (logs w) @
             replicate (length (filter (normalizationThrows B) rest))
               (LogError TypeError ''normalize_hadith_data'')"
      by blast
    have y: "yieldsNoRecord B raw"
      using lacks by (simp add: yieldsNoRecord_def)
    show ?thesis
      using n ih lacks y le by simp
  next
    case yields
    obtain h w1 where
      n: "normalizeHadithData B (gen i) now raw w = (Inr (Some h), w1)"
         "filter (\<lambda>x. \<not> isSaveLog x) (logs w1) = filter (\<lambda>x. \<not> isSaveLog x) (logs w)"
      using normalizeHadithData_record [OF yields] by blast
    from Cons.IH [OF rest, of "Suc i" "acc @ [h]" w1] obtain hs w' where
      ih: "processElements B gen now (Suc i) rest (acc @ [h]) w1 = (Inr hs, w')"
          "length hs = length (acc @ [h]) + (length rest - length (filter (yieldsNoRecord B) rest))"
          "filter (\<lambda>x. \<not> isSaveLog x) (logs w') =
             filter (\<lambda>x. \<not> isSaveLog x) (logs w1) @
             replicate (length (filter (normalizationThrows B) rest))
               (LogError TypeError ''normalize_hadith_data'')"
      by blast
    have nt: "\<not> normalizationThrows B raw"
      using yields by (simp add: yieldsNoRecord_def)
    show ?thesis
      using n ih yields nt le by (simp add: Suc_diff_le)
  qed
qed

text \<open>
  C5 (as amended). For every response array of N elements parsed from JSON (no element is
  \<open>undefined\<close>), \<open>processSearchResponse\<close> returns exactly N - K records, where K counts the
  elements that give no record: those whose normalisation throws and those that have
  neither text nor Arabic text. Apart from the entries of failed saves, the log grows by
  exactly one \<open>normalize_hadith_data\<close> error for each element whose normalisation throws;
  an element dropped for lack of text is not logged. No element aborts the batch, and the
  caller always receives a list.
\<close>

theorem C5_batch_normalization:
  assumes "JUndefined \<notin> set elements"
  shows "let (hadiths, w') = processSearchResponse B gen now (JArr elements) w
         in length hadiths = length elements - length (filter (yieldsNoRecord B) elements) \<and>
            filter (\<lambda>x. \<not> isSaveLog x) (logs w') =
              filter (\<lambda>x. \<not> isSaveLog x) (logs w) @
              replicate (length (filter (normalizationThrows B) elements))
                (LogError TypeError ''normalize_hadith_data'')"
proof -
  from processElements_count [OF assms, of B gen now 0 "[]" w] obtain hs w' where
    "processElements B gen now 0 elements [] w = (Inr hs, w')"
    "length hs = length elements - length (filter (yieldsNoRecord B) elements)"
    "filter (\<lambda>x. \<not> isSaveLog x) (logs w') =
       filter (\<lambda>x. \<not> isSaveLog x) (logs w) @
       replicate (length (filter (normalizationThrows B) elements))
         (LogError TypeError ''normalize_hadith_data'')"
    by auto
  then show ?thesis
    by (simp add: processSearchResponse_def)
qed

theorem C5_batch_normalization_witness:
  "JUndefined \<notin> set [prayerRaw, JObj [], JNull, badKeywordsRaw] \<and>
   (let (hadiths, w') = processSearchResponse asciiBuiltins exampleUuids 1000
                          (JArr [prayerRaw, JObj [], JNull, badKeywordsRaw]) emptyWorld
    in length hadiths = 1 \<and>
       filter (\<lambda>x. \<not> isSaveLog x) (logs w') =
         [LogError TypeError ''normalize_hadith_data'', LogError TypeError ''normalize_hadith_data''])"
proof -
  let ?els = "[prayerRaw, JObj [], JNull, badKeywordsRaw]"
  have u: "JUndefined \<notin> set ?els"
    by (simp add: prayerRaw_def badKeywordsRaw_def)
  have t: "\<not> normalizationThrows asciiBuiltins prayerRaw"
          "\<not> normalizationThrows asciiBuiltins (JObj [])"
          "normalizationThrows asciiBuiltins JNull"
          "normalizationThrows asciiBuiltins badKeywordsRaw"
    by (simp_all add: normalizationThrows_def prayerRaw_def badKeywordsRaw_def build_simps)
  have l: "\<not> lacksText asciiBuiltins prayerRaw"
          "lacksText asciiBuiltins (JObj [])"
    by (simp_all add: lacksText_def prayerRaw_def build_simps)
  have y: "filter (yieldsNoRecord asciiBuiltins) ?els = [JObj [], JNull, badKeywordsRaw]"
          "filter (normalizationThrows asciiBuiltins) ?els = [JNull, badKeywordsRaw]"
    using t l by (simp_all add: yieldsNoRecord_def)
  show ?thesis
    using C5_batch_normalization [OF u, of asciiBuiltins exampleUuids 1000 emptyWorld] u
    unfolding y by (simp add: split_beta emptyWorld_def)
qed

text \<open>
  The claim as stated fails on an element without text: normalising the empty object does
  not throw, no record is returned for it, and nothing is logged.
\<close>

theorem C5_silent_drop_counterexample:
  "\<not> normalizationThrows asciiBuiltins (JObj []) \<and>
   processSearchResponse asciiBuiltins exampleUuids 1000 (JArr [JObj []]) emptyWorld =
     ([], emptyWorld) \<and>
   logs emptyWorld = []"
  by (simp add: normalizationThrows_def processSearchResponse_def normalizeHadithData_def
      emptyWorld_def build_simps)

section \<open>Saving is an upsert on the external identifier\<close>

lemma map_filter_Cons_dorar:
  "List.map_filter dorarId (r # t) =
     (case dorarId r of None \<Rightarrow> List.map_filter dorarId t
      | Some d \<Rightarrow> d # List.map_filter dorarId t)"
  by (simp add: List.map_filter_def split: option.splits)

lemma set_map_filter_dorar:
  "d \<in> set (List.map_filter dorarId t) \<longleftrightarrow> Some d \<in> set (map dorarId t)"
  by (induction t) (auto simp: map_filter_Cons_dorar List.map_filter_def split: option.splits)

lemma storedWith_empty:
  "storedWith d t = [] \<longleftrightarrow> Some d \<notin> set (map dorarId t)"
  by (force simp: storedWith_def filter_empty_conv)

lemma find_dorar_None:
  "findUniqueByDorarId t d = None \<longleftrightarrow> Some d \<notin> set (map dorarId t)"
  by (force simp: findUniqueByDorarId_def find_None_iff)

lemma find_dorar_Some:
  "findUniqueByDorarId t d = Some r \<Longrightarrow> r \<in> set t \<and> dorarId r = Some d"
  by (auto simp: findUniqueByDorarId_def find_Some_iff)

lemma unique_stored:
  assumes "dorarIdsUnique t" and "findUniqueByDorarId t d = Some r"
  shows "storedWith d t = [r]"
  using assms
proof (induction t)
  case Nil
  then show ?case by (simp add: findUniqueByDorarId_def)
next
  case (Cons x t)
  show ?case
  proof (cases "dorarId x = Some d")
    case True
    then have "d \<notin> set (List.map_filter dorarId t)"
      using Cons.prems(1) by (simp add: dorarIdsUnique_def map_filter_Cons_dorar)
    then have "storedWith d t = []"
      by (simp add: storedWith_empty set_map_filter_dorar)
    then show ?thesis
      using True Cons.prems(2) by (simp add: storedWith_def findUniqueByDorarId_def)
  next
    case False
    have "dorarIdsUnique t"
      using Cons.prems(1) by (auto simp: dorarIdsUnique_def map_filter_Cons_dorar split: option.splits)
    moreover have "findUniqueByDorarId t d = Some r"
      using False Cons.prems(2) by (simp add: findUniqueByDorarId_def)
    ultimately have "storedWith d t = [r]"
      by (rule Cons.IH)
    then show ?thesis
      using False by (simp add: storedWith_def)
  qed
qed

lemma replaceFirst_dorarIds:
  assumes "dorarId new = Some d"
  shows "map dorarId (replaceFirst (\<lambda>x. dorarId x = Some d) new t) = map dorarId t"
  using assms by (induction t) auto

lemma replaceFirst_stored:
  assumes "dorarId new = Some d" and "storedWith d t = [r]"
  shows "storedWith d (replaceFirst (\<lambda>x. dorarId x = Some d) new t) = [new]"
  using assms
proof (induction t)
  case Nil
  then show ?case by (simp add: storedWith_def)
next
  case (Cons x t)
  show ?case
  proof (cases "dorarId x = Some d")
    case True
    then have "storedWith d t = []"
      using Cons.prems(2) by (simp add: storedWith_def)
    then show ?thesis
      using True Cons.prems(1) by (simp add: storedWith_def)
  next
    case False
    then have "storedWith d t = [r]"
      using Cons.prems(2) by (simp add: storedWith_def)
    then show ?thesis
      using False Cons.IH [OF Cons.prems(1)] by (simp add: storedWith_def)
  qed
qed

lemma replaceFirst_ids:
  "set (map hadith_id (replaceFirst P new t)) \<subseteq> insert (hadith_id new) (set (map hadith_id t))"
  by (induction t) auto

lemma map_filter_via_map:
  "List.map_filter f xs = map the (filter (\<lambda>x. x \<noteq> None) (map f xs))"
  by (induction xs) (auto simp: List.map_filter_def)

lemma dorarIdsUnique_map:
  "map dorarId t' = map dorarId t \<Longrightarrow> dorarIdsUnique t' = dorarIdsUnique t"
  by (simp add: dorarIdsUnique_def map_filter_via_map)

lemma prismaCreate_ok:
  assumes "hadith_id h \<notin> set (map hadith_id t)"
    and "dorarId h = None \<or> dorarId h \<notin> set (map dorarId t)"
  shows "prismaCreate t h = Inr (h, t @ [h])"
  using assms by (auto simp: prismaCreate_def)

lemma dorarIdsUnique_append:
  assumes "dorarIdsUnique t" and "dorarId h = None \<or> dorarId h \<notin> set (map dorarId t)"
  shows "dorarIdsUnique (t @ [h])"
proof (cases "dorarId h")
  case None
  then show ?thesis
    using assms(1) by (simp add: dorarIdsUnique_def List.map_filter_def)
next
  case (Some d)
  then have "d \<notin> set (List.map_filter dorarId t)"
    using assms(2) by (simp add: set_map_filter_dorar)
  moreover have "List.map_filter dorarId (t @ [h]) = List.map_filter dorarId t @ [d]"
    using Some by (simp add: List.map_filter_def)
  ultimately show ?thesis
    using assms(1) by (simp add: dorarIdsUnique_def)
qed

lemma saveHadithTry_unique:
  assumes "dorarIdsUnique t" and "saveHadithTry h now t = Inr (r, t')"
  shows "dorarIdsUnique t'"
proof -
  have create: "dorarIdsUnique t'" if "prismaCreate t h = Inr (r, t')"
  proof -
    from that have "t' = t @ [h]" and "dorarId h = None \<or> dorarId h \<notin> set (map dorarId t)"
      by (auto simp: prismaCreate_def split: if_splits)
    then show ?thesis
      using assms(1) by (simp add: dorarIdsUnique_append)
  qed
  have update: "dorarIdsUnique t'"
    if "prismaUpdateByDorarId t d (h\<lparr> updatedAt := Some now \<rparr>) = Inr (r, t')"
       and "dorarId h = Some d" for d
  proof -
    from that(1) have "t' = replaceFirst (\<lambda>x. dorarId x = Some d) (h\<lparr> updatedAt := Some now \<rparr>) t"
      by (auto simp: prismaUpdateByDorarId_def split: option.splits if_splits)
    then have "map dorarId t' = map dorarId t"
      using that(2) by (simp add: replaceFirst_dorarIds)
    from dorarIdsUnique_map [OF this] show ?thesis
      using assms(1) by simp
  qed
  show ?thesis
  proof (cases "orNull (dorarId h)")
    case None
    then show ?thesis
      using assms(2) create by (simp add: saveHadithTry_def)
  next
    case (Some d)
    then have d: "dorarId h = Some d"
      by (auto simp: orNull_def split: option.splits if_splits)
    show ?thesis
    proof (cases "findUniqueByDorarId t d")
      case None
      then show ?thesis
        using assms(2) create Some by (simp add: saveHadithTry_def)
    next
      case (Some existing)
      then show ?thesis
        using assms(2) update [OF _ d] \<open>orNull (dorarId h) = Some d\<close>
        by (simp add: saveHadithTry_def)
    qed
  qed
qed

lemma find_via_filter:
  "find P xs = (case filter P xs of [] \<Rightarrow> None | x # _ \<Rightarrow> Some x)"
  by (induction xs) auto

lemma stored_find:
  "storedWith d t = [r] \<Longrightarrow> findUniqueByDorarId t d = Some r"
  by (simp add: storedWith_def findUniqueByDorarId_def find_via_filter)

lemma saveHadithToDatabase_unique:
  assumes "dorarIdsUnique (hadithTable w)"
  shows "dorarIdsUnique (hadithTable (snd (saveHadithToDatabase h now w)))"
proof (cases "saveHadithTry h now (hadithTable w)")
  case (Inl e)
  then show ?thesis
    using assms by (simp add: saveHadithToDatabase_def addLog_def)
next
  case (Inr p)
  obtain r t' where p: "p = (r, t')"
    by (cases p)
  have "dorarIdsUnique t'"
    using saveHadithTry_unique [OF assms] Inr p by simp
  then show ?thesis
    using Inr p by (simp add: saveHadithToDatabase_def)
qed

lemma save_existing:
  assumes st: "storedWith d (hadithTable w) = [r]"
    and d: "dorarId h = Some d" and ne: "d \<noteq> []"
    and ok: "hadith_id h = hadith_id r \<or> hadith_id h \<notin> set (map hadith_id (hadithTable w))"
  shows "saveHadithToDatabase h now w =
           (Some (h\<lparr> updatedAt := Some now \<rparr>),
            w\<lparr> hadithTable :=
                 replaceFirst (\<lambda>x. dorarId x = Some d) (h\<lparr> updatedAt := Some now \<rparr>) (hadithTable w) \<rparr>)"
    and "storedWith d (replaceFirst (\<lambda>x. dorarId x = Some d) (h\<lparr> updatedAt := Some now \<rparr>)
                          (hadithTable w)) = [h\<lparr> updatedAt := Some now \<rparr>]"
proof -
  have f: "findUniqueByDorarId (hadithTable w) d = Some r"
    by (rule stored_find [OF st])
  have o: "orNull (dorarId h) = Some d"
    using d ne by (simp add: orNull_def)
  have "saveHadithTry h now (hadithTable w) =
          Inr (h\<lparr> updatedAt := Some now \<rparr>,
               replaceFirst (\<lambda>x. dorarId x = Some d) (h\<lparr> updatedAt := Some now \<rparr>) (hadithTable w))"
    using f o ok by (auto simp: saveHadithTry_def prismaUpdateByDorarId_def)
  then show "saveHadithToDatabase h now w =
           (Some (h\<lparr> updatedAt := Some now \<rparr>),
            w\<lparr> hadithTable :=
                 replaceFirst (\<lambda>x. dorarId x = Some d) (h\<lparr> updatedAt := Some now \<rparr>) (hadithTable w) \<rparr>)"
    by (simp add: saveHadithToDatabase_def)
  show "storedWith d (replaceFirst (\<lambda>x. dorarId x = Some d) (h\<lparr> updatedAt := Some now \<rparr>)
                          (hadithTable w)) = [h\<lparr> updatedAt := Some now \<rparr>]"
    by (rule replaceFirst_stored [OF _ st]) (simp add: d)
qed

lemma save_first:
  assumes inv: "dorarIdsUnique (hadithTable w)"
    and d: "dorarId h = Some d" and ne: "d \<noteq> []"
    and fresh: "hadith_id h \<notin> set (map hadith_id (hadithTable w))"
  shows "\<exists>r. storedWith d (hadithTable (snd (saveHadithToDatabase h now w))) = [r] \<and>
             hadith_id r = hadith_id h \<and>
             set (map hadith_id (hadithTable (snd (saveHadithToDatabase h now w)))) \<subseteq>
               insert (hadith_id h) (set (map hadith_id (hadithTable w)))"
proof (cases "findUniqueByDorarId (hadithTable w) d")
  case None
  have o: "orNull (dorarId h) = Some d"
    using d ne by (simp add: orNull_def)
  have nd: "Some d \<notin> set (map dorarId (hadithTable w))"
    using None by (simp add: find_dorar_None)
  then have c: "prismaCreate (hadithTable w) h = Inr (h, hadithTable w @ [h])"
    using fresh d by (intro prismaCreate_ok) auto
  have s: "saveHadithToDatabase h now w = (Some h, w\<lparr> hadithTable := hadithTable w @ [h] \<rparr>)"
    using None o c by (simp add: saveHadithToDatabase_def saveHadithTry_def)
  have "storedWith d (hadithTable w) = []"
    using nd by (simp add: storedWith_empty)
  then have "storedWith d (hadithTable w @ [h]) = [h]"
    using d by (simp add: storedWith_def)
  then show ?thesis
    using s by auto
next
  case (Some r)
  have st: "storedWith d (hadithTable w) = [r]"
    by (rule unique_stored [OF inv Some])
  have ok: "hadith_id h = hadith_id r \<or> hadith_id h \<notin> set (map hadith_id (hadithTable w))"
    using fresh by simp
  note e = save_existing [OF st d ne ok, of now]
  show ?thesis
    using e replaceFirst_ids [of "\<lambda>x. dorarId x = Some d" "h\<lparr> updatedAt := Some now \<rparr>" "hadithTable w"]
    by auto
qed

text \<open>
  C3. In a table where no two records carry the same external identifier, saving two
  normalised records that carry the same non-empty identifier \<open>d\<close> (each under a fresh
  internal identifier, as \<open>uuidv4()\<close> gives), one after the other, keeps that property
  and leaves exactly one stored record with \<open>d\<close>: the second record, with its update
  time. The second save returns that stored record.
\<close>

theorem C3_upsert_by_dorarId:
  assumes inv: "dorarIdsUnique (hadithTable w)"
    and d1: "dorarId h1 = Some d" and d2: "dorarId h2 = Some d" and ne: "d \<noteq> []"
    and fresh1: "hadith_id h1 \<notin> set (map hadith_id (hadithTable w))"
    and fresh2: "hadith_id h2 \<notin> set (map hadith_id (hadithTable w))"
  shows "let (r1, w1) = saveHadithToDatabase h1 now1 w;
             (r2, w2) = saveHadithToDatabase h2 now2 w1
         in dorarIdsUnique (hadithTable w1) \<and>
            dorarIdsUnique (hadithTable w2) \<and>
            r2 = Some (h2\<lparr> updatedAt := Some now2 \<rparr>) \<and>
            storedWith d (hadithTable w2) = [h2\<lparr> updatedAt := Some now2 \<rparr>]"
proof -
  let ?w1 = "snd (saveHadithToDatabase h1 now1 w)"
  have u1: "dorarIdsUnique (hadithTable ?w1)"
    by (rule saveHadithToDatabase_unique [OF inv])
  obtain r where r: "storedWith d (hadithTable ?w1) = [r]" "hadith_id r = hadith_id h1"
    "set (map hadith_id (hadithTable ?w1)) \<subseteq> insert (hadith_id h1) (set (map hadith_id (hadithTable w)))"
    using save_first [OF inv d1 ne fresh1, of now1] by blast
  have ok: "hadith_id h2 = hadith_id r \<or> hadith_id h2 \<notin> set (map hadith_id (hadithTable ?w1))"
    using r(2,3) fresh2 by auto
  note e = save_existing [OF r(1) d2 ne ok, of now2]
  have u2: "dorarIdsUnique (hadithTable (snd (saveHadithToDatabase h2 now2 ?w1)))"
    by (rule saveHadithToDatabase_unique [OF u1])
  show ?thesis
    using u1 u2 e by (simp add: split_beta)
qed

theorem C3_upsert_by_dorarId_witness:
  "dorarIdsUnique (hadithTable emptyWorld) \<and>
   dorarId prayerHadith = Some (S ''7'') \<and> dorarId revisedPrayer = Some (S ''7'') \<and>
   (let (r1, w1) = saveHadithToDatabase prayerHadith 1000 emptyWorld;
        (r2, w2) = saveHadithToDatabase revisedPrayer 2000 w1
    in r2 = Some (revisedPrayer\<lparr> updatedAt := Some 2000 \<rparr>) \<and>
       storedWith (S ''7'') (hadithTable w2) = [revisedPrayer\<lparr> updatedAt := Some 2000 \<rparr>])"
proof -
  have inv: "dorarIdsUnique (hadithTable emptyWorld)"
    by (simp add: emptyWorld_def dorarIdsUnique_def List.map_filter_def)
  have d1: "dorarId prayerHadith = Some (S ''7'')"
    by (simp add: prayerHadith_def)
  have d2: "dorarId revisedPrayer = Some (S ''7'')"
    by (simp add: revisedPrayer_def prayerHadith_def)
  have ne: "S ''7'' \<noteq> []"
    by simp
  have f1: "hadith_id prayerHadith \<notin> set (map hadith_id (hadithTable emptyWorld))"
    and f2: "hadith_id revisedPrayer \<notin> set (map hadith_id (hadithTable emptyWorld))"
    by (simp_all add: emptyWorld_def)
  show ?thesis
    using C3_upsert_by_dorarId [OF inv d1 d2 ne f1 f2, of 1000 2000] inv d1 d2
    by (simp add: split_beta Let_def)
qed

section \<open>The internal identifier of a stored record\<close>

text \<open>
  C7. The update of \<open>saveHadithToDatabase\<close> writes every field of the freshly normalised
  record, the new \<open>uuidv4()\<close> included: normalising the same external record again
  replaces the internal identifier of the stored record (\<open>id-0\<close> becomes \<open>id-1\<close>).
\<close>

theorem C7_id_replaced_on_resave:
  "hadithTable (snd (normalizeHadithData asciiBuiltins (S ''id-0'') 1000 prayerRaw emptyWorld)) =
     [prayerHadith] \<and>
   hadith_id prayerHadith = S ''id-0'' \<and>
   hadithTable (snd (normalizeHadithData asciiBuiltins (S ''id-1'') 2000 prayerRaw
                       (emptyWorld\<lparr> hadithTable := [prayerHadith] \<rparr>))) =
     [prayerHadith\<lparr> hadith_id := S ''id-1'', updatedAt := Some 2000 \<rparr>]"
  by (simp add: normalizeHadithData_def saveHadithToDatabase_def saveHadithTry_def
      prismaCreate_def prismaUpdateByDorarId_def findUniqueByDorarId_def emptyWorld_def
      prayerRaw_def prayerHadith_def build_simps)

theorem C7_id_replaced_on_resave_witness:
  "map hadith_id
     (hadithTable (snd (normalizeHadithData asciiBuiltins (S ''id-1'') 2000 prayerRaw
                          (emptyWorld\<lparr> hadithTable := [prayerHadith] \<rparr>)))) = [S ''id-1''] \<and>
   map hadith_id (hadithTable (emptyWorld\<lparr> hadithTable := [prayerHadith] \<rparr>)) = [S ''id-0'']"
  using C7_id_replaced_on_resave by simp


section \<open>Random hadith: storage first, the external search as fallback\<close>




lemma filtersOrDefault_idem [simp]:
  "filtersOrDefault (filtersOrDefault fs) = filtersOrDefault fs"
  by (simp add: filtersOrDefault_def)

lemma propOf_filtersOrDefault [simp]:
  "propOf (filtersOrDefault fs) k = propOf fs k"
  by (simp add: filtersOrDefault_def)













section \<open>The gate and a blocked user\<close>

text \<open>When the gate reaches \<open>next()\<close> on the path that admits a user, the context carries
  the user and the \<open>safeReply\<close> helper.\<close>

lemma admitUser_helper:
  assumes "admitUser env c u = (err, effects, c')" and "NextCalled \<in> set effects"
  shows "ctxUser c' = Some u \<and> safeReply c'"
  using assms
  by (auto simp: admitUser_def Let_def split: option.splits if_splits)

text \<open>
  C6 (as amended). For every update whose sender is resolved to a user with
  \<open>isBlocked = true\<close>: when the blocked-user message is sent, the gate does nothing but
  log and reply, and the downstream chain is not called; when sending the message throws,
  the message is not delivered and the handler of the gate, which never blocks a request
  on an error of its own, logs the error and calls the downstream chain.
\<close>

theorem C6_blocked_user_gate:
  assumes sender: "fromUser c \<noteq> None" and nobot: "\<not> isForeignBot c"
    and resolved: "findOrCreateResult env = Inr (Some u)"
    and blockedU: "isBlocked u"
  shows "(replyError env = None \<longrightarrow>
            authMiddleware env c =
              ([Logged (LogSecurity ''Blocked user attempted access''), Replied blockedMessage], c) \<and>
            NextCalled \<notin> set (fst (authMiddleware env c))) \<and>
         (replyError env \<noteq> None \<longrightarrow>
            Replied blockedMessage \<notin> set (fst (authMiddleware env c)) \<and>
            NextCalled \<in> set (fst (authMiddleware env c)))"
  using assms
  by (auto simp: authMiddleware_def authTry_def isForeignBot_def split: option.splits)

theorem C6_blocked_user_gate_witness:
  "fromUser blockedCtx \<noteq> None \<and> \<not> isForeignBot blockedCtx \<and>
   findOrCreateResult quietAuthEnv = Inr (Some blockedUser) \<and> isBlocked blockedUser \<and>
   authMiddleware quietAuthEnv blockedCtx =
     ([Logged (LogSecurity ''Blocked user attempted access''), Replied blockedMessage], blockedCtx)"
proof -
  have a: "fromUser blockedCtx \<noteq> None" "\<not> isForeignBot blockedCtx"
    by (simp_all add: blockedCtx_def isForeignBot_def)
  have b: "findOrCreateResult quietAuthEnv = Inr (Some blockedUser)" "isBlocked blockedUser"
    by (simp_all add: quietAuthEnv_def blockedUser_def exampleUser_def)
  have r: "replyError quietAuthEnv = None"
    by (simp add: quietAuthEnv_def)
  show ?thesis
    using C6_blocked_user_gate [OF a b] a b r by simp
qed

text \<open>The claim as stated fails when the reply cannot be sent: the downstream chain runs
  for the blocked user.\<close>

theorem C6_reply_failure_counterexample:
  "findOrCreateResult replyFailsAuthEnv = Inr (Some blockedUser) \<and> isBlocked blockedUser \<and>
   authMiddleware replyFailsAuthEnv blockedCtx =
     ([Logged (LogSecurity ''Blocked user attempted access''),
       Logged (LogError TransportError ''auth_middleware''), NextCalled], blockedCtx)"
  by (simp add: authMiddleware_def authTry_def replyFailsAuthEnv_def quietAuthEnv_def
      blockedCtx_def blockedUser_def exampleUser_def)

end
